theory Spec2Isabelle
  imports Main "HOL-Library.Word"
begin

text \<open>
  The two GitHub Actions of django-actions, check-migrations and dump-database, as functions
  of the environment of a run: the inputs of the action, the subprocesses it starts and the
  answers of the GitHub REST API. A run yields the requests, log lines and failure marks it
  causes, in order, and the way it ends.
\<close>

section \<open>JavaScript strings\<close>

text \<open>
  A JavaScript string is a sequence of 16-bit code units. String literals of the source are
  written with \<open>js\<close>, which maps each (ASCII) character to its code unit.
\<close>

type_synonym jsstring = "16 word list"

definition js :: "string \<Rightarrow> jsstring" where
  "js s = map of_char s"

text \<open>
  The code units that \<open>String.prototype.trim\<close> strips and that the regular expression
  class \<open>\s\<close> matches: WhiteSpace and LineTerminator of ECMAScript (TAB, LF, VT, FF, CR, SP,
  NBSP, the space separators of Unicode, LS, PS and the byte order mark).
\<close>

definition is_space :: "16 word \<Rightarrow> bool" where
  "is_space c \<longleftrightarrow>
     c \<in> {0x09, 0x0A, 0x0B, 0x0C, 0x0D, 0x20, 0xA0, 0x1680, 0x2028, 0x2029, 0x202F, 0x205F,
          0x3000, 0xFEFF}
     \<or> (0x2000 \<le> c \<and> c \<le> 0x200A)"

text \<open>The class \<open>\w\<close> of a regular expression without the unicode and ignoreCase flags.\<close>

definition is_word :: "16 word \<Rightarrow> bool" where
  "is_word c \<longleftrightarrow>
     (0x61 \<le> c \<and> c \<le> 0x7A) \<or> (0x41 \<le> c \<and> c \<le> 0x5A) \<or> (0x30 \<le> c \<and> c \<le> 0x39) \<or> c = 0x5F"

definition trim :: "jsstring \<Rightarrow> jsstring" where
  "trim s = rev (dropWhile is_space (rev (dropWhile is_space s)))"

text \<open>
  \<open>s.split("\n")\<close>: the pieces of \<open>s\<close> between the line feeds, in order. The empty string
  splits into one empty piece.
\<close>

fun split_nl :: "jsstring \<Rightarrow> jsstring list" where
  "split_nl [] = [[]]"
| "split_nl (c # cs) =
     (if c = 0x0A then [] # split_nl cs
      else (case split_nl cs of [] \<Rightarrow> [[c]] | l # ls \<Rightarrow> (c # l) # ls))"

text \<open>\<open>xs.join(sep)\<close> on an array of strings.\<close>

fun join :: "jsstring \<Rightarrow> jsstring list \<Rightarrow> jsstring" where
  "join sep [] = []"
| "join sep [x] = x"
| "join sep (x # y # ys) = x @ sep @ join sep (y # ys)"

text \<open>The decimal digits of a natural number, as a template literal prints an array length.\<close>

function show_nat :: "nat \<Rightarrow> jsstring" where
  "show_nat n = (if n < 10 then [0x30 + of_nat n] else show_nat (n div 10) @ [0x30 + of_nat (n mod 10)])"
  by pat_completeness auto
termination
  by (relation "measure id") auto

section \<open>Errors and results\<close>

text \<open>
  The exceptions a run can see: \<open>new Error(message)\<close> of the scripts and of the libraries, and
  the engine's ReferenceError and TypeError. Only \<open>error.message\<close> is ever read.
\<close>

datatype error = Error jsstring | ReferenceError jsstring | TypeError jsstring

fun message :: "error \<Rightarrow> jsstring" where
  "message (Error m) = m"
| "message (ReferenceError m) = m"
| "message (TypeError m) = m"

section \<open>Regular expressions\<close>

text \<open>
  The regular expressions of the scripts are anchored sequences of character classes, each
  taken once or with \<open>+\<close>, some inside a named group. \<open>rmatch\<close> is the backtracking matcher:
  a \<open>+\<close> is greedy, it tries the longest run first and gives code units back one at a time;
  the empty sequence is the anchor \<open>$\<close>. The result holds the named groups of the match.
\<close>

datatype cclass = Lit "16 word" | OneOf jsstring | Space | Word

datatype quant = Once | Plus

type_synonym piece = "string option \<times> cclass \<times> quant"

fun in_class :: "cclass \<Rightarrow> 16 word \<Rightarrow> bool" where
  "in_class (Lit a) c = (c = a)"
| "in_class (OneOf as) c = (c \<in> set as)"
| "in_class Space c = is_space c"
| "in_class Word c = is_word c"

fun capture :: "string option \<Rightarrow> jsstring \<Rightarrow> (string \<times> jsstring) list \<Rightarrow> (string \<times> jsstring) list" where
  "capture None s gs = gs"
| "capture (Some name) s gs = (name, s) # gs"

fun first_some :: "('a \<Rightarrow> 'b option) \<Rightarrow> 'a list \<Rightarrow> 'b option" where
  "first_some f [] = None"
| "first_some f (x # xs) = (case f x of Some r \<Rightarrow> Some r | None \<Rightarrow> first_some f xs)"

fun rmatch :: "piece list \<Rightarrow> jsstring \<Rightarrow> (string \<times> jsstring) list option" where
  "rmatch [] s = (if s = [] then Some [] else None)"
| "rmatch ((g, cl, Once) # ps) s =
     (case s of
        [] \<Rightarrow> None
      | c # cs \<Rightarrow> if in_class cl c then map_option (capture g [c]) (rmatch ps cs) else None)"
| "rmatch ((g, cl, Plus) # ps) s =
     first_some (\<lambda>n. map_option (capture g (take n s)) (rmatch ps (drop n s)))
       (rev [1 ..< Suc (length (takeWhile (in_class cl) s))])"

text \<open>
  \<^verbatim>\<open>/^\[(?<applied>[X ])\]\s+(?<appLabel>\w+)\.(?<migrationName>\w+)$/\<close>
\<close>

definition plan_regex :: "piece list" where
  "plan_regex =
     [(None, Lit 0x5B, Once),
      (Some ''applied'', OneOf (js ''X ''), Once),
      (None, Lit 0x5D, Once),
      (None, Space, Plus),
      (Some ''appLabel'', Word, Plus),
      (None, Lit 0x2E, Once),
      (Some ''migrationName'', Word, Plus)]"

section \<open>The environment of a run\<close>

text \<open>
  A finished subprocess as \<open>@actions/exec\<close> reports it: the exit code, the buffers handed
  to a \<open>stdout\<close> listener (each already decoded by \<open>toString()\<close>) and the lines handed to a
  \<open>stdline\<close> listener.
\<close>

record proc =
  exit_code :: int
  stdout_data :: "jsstring list"
  stdline_data :: "jsstring list"

record checks_create_params =
  cc_owner :: jsstring
  cc_repo :: jsstring
  cc_name :: jsstring
  cc_head_sha :: jsstring
  cc_status :: jsstring

record checks_update_params =
  cu_owner :: jsstring
  cu_repo :: jsstring
  cu_check_run_id :: nat
  cu_completed_at :: jsstring
  cu_conclusion :: jsstring
  cu_output_title :: jsstring
  cu_output_summary :: jsstring
  cu_output_text :: "jsstring option"

record file_params =
  cf_owner :: jsstring
  cf_repo :: jsstring
  cf_path :: jsstring
  cf_message :: jsstring
  cf_content :: jsstring
  cf_sha :: "jsstring option"

record pulls_list_params =
  pl_owner :: jsstring
  pl_repo :: jsstring
  pl_state :: jsstring
  pl_head :: jsstring

record pulls_create_params =
  pc_owner :: jsstring
  pc_repo :: jsstring
  pc_title :: jsstring
  pc_head :: jsstring
  pc_base :: jsstring

text \<open>
  Everything a run reads from outside the script: the action's inputs (the \<open>INPUT_*\<close>
  variables, empty when not supplied), the subprocesses, the error with which
  \<open>@actions/exec\<close> rejects for a tool and a non-zero exit code, \<open>github.context\<close> (which
  the runner always provides), the clock, and how the GitHub REST API settles each request
  (\<open>Inl\<close>: the request is rejected; \<open>Inr\<close>: the \<open>data\<close> of the response; a check run is
  identified by its \<open>id\<close>, a pull request by its number). A command is started at most once
  per run with the same arguments, so a subprocess is a function of the tool and its
  arguments.

  The commands of \<open>commitFile\<close> change the dump file in the working tree and read it back,
  so what one of them yields depends on the commands that \<open>commitFile\<close> has run before it:
  \<open>worktree w before command\<close> is the subprocess of \<open>command\<close> (a tool with its arguments)
  when \<open>commitFile\<close> has already run the commands \<open>before\<close>, in this order.
\<close>

type_synonym command = "jsstring \<times> jsstring list"

record world =
  inputs :: "jsstring \<Rightarrow> jsstring"
  process :: "jsstring \<Rightarrow> jsstring list \<Rightarrow> proc"
  worktree :: "command list \<Rightarrow> command \<Rightarrow> proc"
  exec_error :: "jsstring \<Rightarrow> int \<Rightarrow> error"
  context_owner :: jsstring
  context_repo :: jsstring
  context_sha :: jsstring
  now :: jsstring
  checks_create :: "checks_create_params \<Rightarrow> error + nat"
  checks_update :: "checks_update_params \<Rightarrow> error + nat"
  repos_createOrUpdateFile :: "file_params \<Rightarrow> error + unit"
  pulls_list :: "pulls_list_params \<Rightarrow> error + nat list"
  pulls_create :: "pulls_create_params \<Rightarrow> error + nat"

text \<open>What a run does to the outside, in order.\<close>

datatype event =
    ConsoleLog jsstring "error option"
  | SetFailed jsstring
  | ChecksCreate checks_create_params
  | ChecksUpdate checks_update_params
  | CreateOrUpdateFile file_params
  | PullsList pulls_list_params
  | PullsCreate pulls_create_params

text \<open>
  A computation with effects: the events it caused, then the exception it threw (\<open>Inl\<close>) or
  the value it returned (\<open>Inr\<close>).
\<close>

type_synonym 'a io = "event list \<times> (error + 'a)"

definition pure :: "'a \<Rightarrow> 'a io" where
  "pure x = ([], Inr x)"

definition throw :: "error \<Rightarrow> 'a io" where
  "throw e = ([], Inl e)"

definition lift :: "error + 'a \<Rightarrow> 'a io" where
  "lift r = ([], r)"

definition emit :: "event \<Rightarrow> unit io" where
  "emit ev = ([ev], Inr ())"

definition bind :: "'a io \<Rightarrow> ('a \<Rightarrow> 'b io) \<Rightarrow> 'b io" where
  "bind m f =
     (case m of
        (es, Inl e) \<Rightarrow> (es, Inl e)
      | (es, Inr x) \<Rightarrow> (case f x of (es', r) \<Rightarrow> (es @ es', r)))"

text \<open>\<open>try { body } catch (error) { handler }\<close>\<close>

definition try_catch :: "'a io \<Rightarrow> (error \<Rightarrow> 'a io) \<Rightarrow> 'a io" where
  "try_catch body handler =
     (case body of
        (es, Inl e) \<Rightarrow> (case handler e of (es', r) \<Rightarrow> (es @ es', r))
      | (es, Inr x) \<Rightarrow> (es, Inr x))"

definition and_then :: "error + 'a \<Rightarrow> ('a \<Rightarrow> error + 'b) \<Rightarrow> error + 'b" where
  "and_then r f = (case r of Inl e \<Rightarrow> Inl e | Inr x \<Rightarrow> f x)"

text \<open>\<open>xs.map(f)\<close> with a callback that may throw: the first exception ends the map.\<close>

fun map_result :: "('a \<Rightarrow> error + 'b) \<Rightarrow> 'a list \<Rightarrow> error + 'b list" where
  "map_result f [] = Inr []"
| "map_result f (x # xs) =
     (case f x of
        Inl e \<Rightarrow> Inl e
      | Inr y \<Rightarrow> (case map_result f xs of Inl e \<Rightarrow> Inl e | Inr ys \<Rightarrow> Inr (y # ys)))"

subsection \<open>\<open>@actions/core\<close> and \<open>@actions/exec\<close>\<close>

text \<open>
  \<open>core.getInput(name, { required })\<close>: the input's value, trimmed; a required input that
  is not supplied throws.
\<close>

definition getInput :: "world \<Rightarrow> jsstring \<Rightarrow> bool \<Rightarrow> error + jsstring" where
  "getInput w name required =
     (let val = inputs w name
      in if required \<and> val = [] then Inl (Error (js ''Input required and not supplied: '' @ name))
         else Inr (trim val))"

text \<open>
  \<open>exec.exec(tool, args, options)\<close> resolves with the exit code once the process has ended
  and its listeners have run; it rejects on a non-zero exit code unless \<open>ignoreReturnCode\<close>
  is set.
\<close>

definition exec :: "world \<Rightarrow> jsstring \<Rightarrow> jsstring list \<Rightarrow> bool \<Rightarrow> error + proc" where
  "exec w tool args ignoreReturnCode =
     (let p = process w tool args
      in if exit_code p \<noteq> 0 \<and> \<not> ignoreReturnCode then Inl (exec_error w tool (exit_code p))
         else Inr p)"

text \<open>
  \<open>exec.exec\<close> on a command of \<open>commitFile\<close>: the same, and the command joins those that
  have run.
\<close>

definition exec_after :: "world \<Rightarrow> command list \<Rightarrow> command \<Rightarrow> bool \<Rightarrow> error + (proc \<times> command list)" where
  "exec_after w before command ignoreReturnCode =
     (let p = worktree w before command
      in if exit_code p \<noteq> 0 \<and> \<not> ignoreReturnCode then Inl (exec_error w (fst command) (exit_code p))
         else Inr (p, before @ [command]))"

text \<open>The listener \<open>data => { stdout += data.toString(); }\<close>, run on every buffer.\<close>

definition listen_stdout :: "proc \<Rightarrow> jsstring \<Rightarrow> jsstring" where
  "listen_stdout p acc = foldl (\<lambda>out data. out @ data) acc (stdout_data p)"

text \<open>The listener \<open>line => lines.push(line)\<close>, run on every line.\<close>

definition listen_stdline :: "proc \<Rightarrow> jsstring list \<Rightarrow> jsstring list" where
  "listen_stdline p acc = foldl (\<lambda>lines line. lines @ [line]) acc (stdline_data p)"

subsection \<open>Octokit\<close>

text \<open>
  A REST method of octokit sends its request and returns a promise of the response. Awaiting
  the promise gives the response object, whose property \<open>data\<close> holds the payload, or throws.
  A promise itself has no property \<open>data\<close>: reading it gives \<open>undefined\<close> (\<open>None\<close>), and
  reading a property of \<open>undefined\<close> throws a TypeError (with the message of Node 12, which
  the actions run on).
\<close>

datatype 'a js_object = Promise "error + 'a" | Response 'a

fun await :: "'a js_object \<Rightarrow> error + 'a js_object" where
  "await (Promise (Inl e)) = Inl e"
| "await (Promise (Inr d)) = Inr (Response d)"
| "await (Response d) = Inr (Response d)"

fun prop_data :: "'a js_object \<Rightarrow> 'a option" where
  "prop_data (Response d) = Some d"
| "prop_data (Promise r) = None"

definition prop_of :: "string \<Rightarrow> ('a \<Rightarrow> 'b) \<Rightarrow> 'a option \<Rightarrow> error + 'b" where
  "prop_of name get v =
     (case v of
        None \<Rightarrow> Inl (TypeError (js ''Cannot read property '' @ [0x27] @ js name @ [0x27] @ js '' of undefined''))
      | Some x \<Rightarrow> Inr (get x))"

definition octokit_checks_create :: "world \<Rightarrow> checks_create_params \<Rightarrow> nat js_object io" where
  "octokit_checks_create w params = ([ChecksCreate params], Inr (Promise (checks_create w params)))"

definition octokit_checks_update :: "world \<Rightarrow> checks_update_params \<Rightarrow> nat js_object io" where
  "octokit_checks_update w params = ([ChecksUpdate params], Inr (Promise (checks_update w params)))"

definition octokit_repos_createOrUpdateFile :: "world \<Rightarrow> file_params \<Rightarrow> unit js_object io" where
  "octokit_repos_createOrUpdateFile w params =
     ([CreateOrUpdateFile params], Inr (Promise (repos_createOrUpdateFile w params)))"

definition octokit_pulls_list :: "world \<Rightarrow> pulls_list_params \<Rightarrow> nat list js_object io" where
  "octokit_pulls_list w params = ([PullsList params], Inr (Promise (pulls_list w params)))"

definition octokit_pulls_create :: "world \<Rightarrow> pulls_create_params \<Rightarrow> nat js_object io" where
  "octokit_pulls_create w params = ([PullsCreate params], Inr (Promise (pulls_create w params)))"

section \<open>check-migrations/index.js\<close>

definition makemigrations_args :: "jsstring list" where
  "makemigrations_args =
     [js ''-W'', js ''ignore'', js ''manage.py'', js ''makemigrations'', js ''--dry-run'', js ''--check'']"

definition showmigrations_args :: "jsstring list" where
  "showmigrations_args = [js ''-W'', js ''ignore'', js ''manage.py'', js ''showmigrations'', js ''--plan'']"

definition manage_args :: "jsstring \<Rightarrow> jsstring \<Rightarrow> jsstring \<Rightarrow> jsstring list" where
  "manage_args command appLabel migrationName =
     [js ''-W'', js ''ignore'', js ''manage.py'', command, appLabel, migrationName]"

definition checkMissingMigrations :: "world \<Rightarrow> error + (bool \<times> jsstring)" where
  "checkMissingMigrations w =
     and_then (exec w (js ''python'') makemigrations_args True) (\<lambda>p.
       let result = exit_code p; stdout = listen_stdout p []
       in Inr (result \<noteq> 0, trim stdout))"

text \<open>
  The callback of the \<open>map\<close> in \<open>getUnappliedMigrations\<close>. Every named group of
  \<open>plan_regex\<close> takes part in every match, so the groups read are always there; the last case
  stands for a group reading \<open>undefined\<close>.
\<close>

definition classify_line :: "jsstring \<Rightarrow> error + (jsstring \<times> jsstring) option" where
  "classify_line line =
     (case rmatch plan_regex line of
        None \<Rightarrow> Inl (Error (js ''Line '' @ line @ js '' did not match regex''))
      | Some groups \<Rightarrow>
          Inr (if map_of groups ''applied'' = Some (js '' '')
               then (case (map_of groups ''appLabel'', map_of groups ''migrationName'') of
                       (Some appLabel', Some migrationName') \<Rightarrow> Some (appLabel', migrationName')
                     | _ \<Rightarrow> None)
               else None))"

definition getUnappliedMigrations :: "world \<Rightarrow> error + (bool \<times> (jsstring \<times> jsstring) list)" where
  \<open>getUnappliedMigrations w =
     and_then (exec w (js ''python'') showmigrations_args True) (\<lambda>p.
       let result = exit_code p; stdout = listen_stdout p []
       in if result \<noteq> 0 then Inl (Error (js ''Failed to run "showmigrations --plan"''))
          else and_then (map_result classify_line (split_nl (trim stdout))) (\<lambda>mapped.
            let unappliedMigrations = map the (filter (\<lambda>l. l \<noteq> None) mapped)
            in Inr (length unappliedMigrations > 0, unappliedMigrations)))\<close>

record migration_output =
  appLabel :: jsstring
  migrationName :: jsstring
  sql :: jsstring
  locks :: "jsstring option"

definition getMigrationOutput :: "world \<Rightarrow> jsstring \<Rightarrow> jsstring \<times> jsstring \<Rightarrow> error + migration_output" where
  "getMigrationOutput w migrationLocksCommand migration =
     (case migration of (appLabel', migrationName') \<Rightarrow>
        and_then (exec w (js ''python'') (manage_args (js ''sqlmigrate'') appLabel' migrationName') True) (\<lambda>p.
          let result = exit_code p; stdout = listen_stdout p []
          in if result \<noteq> 0 then Inl (Error (js ''Failed to run sqlmigrate''))
             else let sql' = stdout; stdout = []
                  in and_then (exec w (js ''python'') (manage_args migrationLocksCommand appLabel' migrationName') True) (\<lambda>p.
                       let result = exit_code p; stdout = listen_stdout p stdout;
                           locks' = (if result = 0 then Some stdout else None)
                       in Inr \<lparr>appLabel = appLabel', migrationName = migrationName', sql = sql', locks = locks'\<rparr>)))"

definition renderDetails :: "jsstring \<Rightarrow> jsstring \<Rightarrow> jsstring" where
  "renderDetails title content =
     js ''<details><summary>'' @ title @ js ''</summary>'' @ [0x0A, 0x0A] @ content @ [0x0A, 0x0A] @ js ''</details>''"

text \<open>\<open>locks ? ... : ""\<close>: \<open>null\<close> and the empty string are falsy.\<close>

definition renderMigration :: "migration_output \<Rightarrow> jsstring" where
  "renderMigration m =
     join [0x0A]
       [js ''#### '' @ appLabel m @ js ''.'' @ migrationName m,
        renderDetails (js ''SQL'') (join [0x0A] [js ''```sql'', sql m, js ''```'']),
        (case locks m of
           None \<Rightarrow> []
         | Some l \<Rightarrow> if l = [] then [] else renderDetails (js ''Locks'') (join [0x0A] [js ''```'', l, js ''```'']))]"

definition renderDetailsMarkdown :: "bool \<Rightarrow> jsstring \<Rightarrow> bool \<Rightarrow> migration_output list \<Rightarrow> jsstring" where
  "renderDetailsMarkdown isMissingMigrations makeMigrationsOutput hasUnappliedMigrations unappliedMigrations =
     (let unappliedMigrationSummaries = map renderMigration unappliedMigrations
      in join [0x0A] (map the (filter (\<lambda>l. l \<noteq> None)
           [if isMissingMigrations then Some (js ''## Missing migrations'') else None,
            if isMissingMigrations then Some (js ''```'') else None,
            if isMissingMigrations then Some makeMigrationsOutput else None,
            if isMissingMigrations then Some (js ''```'') else None,
            if hasUnappliedMigrations then Some (js ''## New migrations'') else None,
            if hasUnappliedMigrations then Some [] else None,
            if hasUnappliedMigrations then Some (join [0x0A] unappliedMigrationSummaries) else None])))"

definition summary_of :: "bool \<Rightarrow> bool \<Rightarrow> nat \<Rightarrow> jsstring" where
  "summary_of isMissingMigrations hasUnappliedMigrations n =
     (if isMissingMigrations \<and> hasUnappliedMigrations
      then js ''Missing migrations and '' @ show_nat n @ js '' new migrations''
      else if isMissingMigrations then js ''Missing migrations''
      else show_nat n @ js '' new migrations'')"

text \<open>The arguments of the three calls on the check run.\<close>

definition in_progress_params :: "world \<Rightarrow> checks_create_params" where
  "in_progress_params w =
     \<lparr>cc_owner = context_owner w, cc_repo = context_repo w, cc_name = js ''Migrations check'',
      cc_head_sha = context_sha w, cc_status = js ''in_progress''\<rparr>"

definition report_params :: "world \<Rightarrow> nat \<Rightarrow> bool \<Rightarrow> jsstring \<Rightarrow> jsstring \<Rightarrow> checks_update_params" where
  "report_params w check_run_id isMissingMigrations summary detailsMarkdown =
     \<lparr>cu_owner = context_owner w, cu_repo = context_repo w, cu_check_run_id = check_run_id,
      cu_completed_at = now w,
      cu_conclusion = (if isMissingMigrations then js ''failure'' else js ''success''),
      cu_output_title = js ''Migrations check'', cu_output_summary = summary,
      cu_output_text = Some detailsMarkdown\<rparr>"

definition failure_params :: "world \<Rightarrow> nat \<Rightarrow> checks_update_params" where
  "failure_params w check_run_id =
     \<lparr>cu_owner = context_owner w, cu_repo = context_repo w, cu_check_run_id = check_run_id,
      cu_completed_at = now w, cu_conclusion = js ''failure'',
      cu_output_title = js ''Migrations check'',
      cu_output_summary = js ''Failed to check migrations.'', cu_output_text = None\<rparr>"

text \<open>
  The first \<open>try\<close> block of \<open>run\<close>. Its \<open>catch\<close> marks the action failed and returns from
  \<open>run\<close>: \<open>None\<close> stands for that return.
\<close>

definition create_check_run :: "world \<Rightarrow> nat js_object option io" where
  "create_check_run w =
     try_catch
       (bind (octokit_checks_create w (in_progress_params w)) (\<lambda>promise.
        bind (lift (await promise)) (\<lambda>checkRun.
        bind (emit (ConsoleLog (js ''Check run'') None)) (\<lambda>_.
        pure (Some checkRun)))))
       (\<lambda>error.
        bind (emit (SetFailed (message error))) (\<lambda>_.
        pure None))"

text \<open>
  The body of the second \<open>try\<close> block. \<open>Promise.all\<close> over the mapped migrations gives the
  outputs in order, or rejects; every rejection of \<open>getMigrationOutput\<close> carries the same
  error, so it does not matter which of them \<open>Promise.all\<close> sees first.
\<close>

definition check_migrations :: "world \<Rightarrow> jsstring \<Rightarrow> nat js_object \<Rightarrow> unit io" where
  "check_migrations w migrationLocksCommand checkRun =
     bind (lift (checkMissingMigrations w)) (\<lambda>(isMissingMigrations, makeMigrationsOutput).
     bind (lift (getUnappliedMigrations w)) (\<lambda>(hasUnappliedMigrations, unappliedMigrations).
     bind (lift (map_result (getMigrationOutput w migrationLocksCommand) unappliedMigrations)) (\<lambda>unappliedMigrationDetails.
     let detailsMarkdown =
           renderDetailsMarkdown isMissingMigrations makeMigrationsOutput hasUnappliedMigrations
             unappliedMigrationDetails;
         summary = summary_of isMissingMigrations hasUnappliedMigrations (length unappliedMigrations)
     in bind (lift (prop_of ''id'' id (prop_data checkRun))) (\<lambda>check_run_id.
        bind (octokit_checks_update w
                (report_params w check_run_id isMissingMigrations summary detailsMarkdown)) (\<lambda>promise.
        bind (lift (await promise)) (\<lambda>updateResult.
        emit (ConsoleLog (js ''Update result'') None)))))))"

text \<open>The \<open>catch\<close> of the second \<open>try\<close> block.\<close>

definition check_failed :: "world \<Rightarrow> nat js_object \<Rightarrow> error \<Rightarrow> unit io" where
  "check_failed w checkRun error =
     bind (emit (ConsoleLog (js ''Something went wrong'') (Some error))) (\<lambda>_.
     bind (emit (SetFailed (message error))) (\<lambda>_.
     bind (lift (prop_of ''id'' id (prop_data checkRun))) (\<lambda>check_run_id.
     bind (octokit_checks_update w (failure_params w check_run_id)) (\<lambda>promise.
     bind (lift (await promise)) (\<lambda>updateResult.
     pure ())))))"

text \<open>\<open>core.getInput("migrations-lock-command") || "migrationlocks"\<close>\<close>

definition lock_command :: "world \<Rightarrow> error + jsstring" where
  "lock_command w =
     and_then (getInput w (js ''migrations-lock-command'') False) (\<lambda>input.
       Inr (if input \<noteq> [] then input else js ''migrationlocks''))"

text \<open>The two \<open>try\<close> statements of \<open>run\<close>, one after the other.\<close>

definition check_and_report :: "world \<Rightarrow> jsstring \<Rightarrow> unit io" where
  "check_and_report w migrationLocksCommand =
     bind (create_check_run w) (\<lambda>created.
     case created of
       None \<Rightarrow> pure ()
     | Some checkRun \<Rightarrow>
         try_catch (check_migrations w migrationLocksCommand checkRun) (check_failed w checkRun))"

text \<open>
  \<open>run\<close> of check-migrations/index.js. The result is the events of the run and how the
  promise of \<open>run()\<close> settles: an \<open>Inl\<close> is an exception that nothing caught.
\<close>

definition check_migrations_run :: "world \<Rightarrow> unit io" where
  "check_migrations_run w =
     bind (lift (getInput w (js ''github-token'') True)) (\<lambda>githubToken.
     bind (lift (lock_command w)) (\<lambda>migrationLocksCommand.
     check_and_report w migrationLocksCommand))"

section \<open>dump-database/index.js and its second copy\<close>

text \<open>
  The repository holds the dump-database script twice: \<open>dump-database/index.js\<close> and a
  second file, \<open>part_001\<close>, with the same \<open>commitFile\<close> and \<open>makePullRequest\<close>, its own
  \<open>dbDumpHasChanged\<close> and its own \<open>run\<close>.

  A call through an identifier looks the identifier up when the call is evaluated, and an
  identifier without a binding throws a ReferenceError. The bindings of each file are listed
  here; \<open>call_declared\<close> runs the body of the declaration when the name is bound. Both
  \<open>run\<close> functions call \<open>createPullRequest\<close>, which neither file binds: the body written
  at that call is the one of \<open>makePullRequest\<close>, the only declaration with these
  parameters, and it is never run.
\<close>

definition dump_database_declared :: "string list" where
  "dump_database_declared =
     [''path'', ''core'', ''github'', ''exec'',
      ''applyMigrations'', ''dumpDatabase'', ''commitFile'', ''makePullRequest'', ''run'']"

definition part_001_declared :: "string list" where
  "part_001_declared =
     [''core'', ''github'', ''exec'', ''dbDumpHasChanged'', ''commitFile'', ''makePullRequest'', ''run'']"

definition call_declared :: "string list \<Rightarrow> string \<Rightarrow> 'a io \<Rightarrow> 'a io" where
  "call_declared declared name body =
     (if name \<in> set declared then body else throw (ReferenceError (js name @ js '' is not defined'')))"

definition applyMigrations :: "world \<Rightarrow> error + jsstring" where
  "applyMigrations w =
     and_then (exec w (js ''python'') [js ''manage.py'', js ''migrate''] False) (\<lambda>p.
       let stdout = listen_stdout p []
       in Inr (trim stdout))"

record dump_params =
  dbName :: jsstring
  dbHost :: jsstring
  dbPort :: jsstring
  dbUser :: jsstring
  dbPass :: jsstring
  dockerImage :: jsstring
  outputPath :: jsstring

text \<open>\<open>lines.includes(x)\<close>\<close>

definition array_includes :: "jsstring list \<Rightarrow> jsstring \<Rightarrow> bool" where
  "array_includes lines x \<longleftrightarrow> x \<in> set lines"

definition pg_dump_args :: "dump_params \<Rightarrow> jsstring list" where
  "pg_dump_args params =
     (let currentDir = js ''.''
      in [js ''run'', js ''-v'', currentDir @ js '':/github/workspace'', js ''--workdir'',
          js ''/github/workspace'', js ''-e'', js ''PGPASSWORD='' @ dbPass params,
          js ''--entrypoint'', js ''pg_dump'', dockerImage params,
          js ''-h'', dbHost params, js ''-p'', dbPort params, js ''-d'', dbName params,
          js ''-U'', dbUser params, js ''--no-owner'', js ''-f'', outputPath params])"

definition dumpDatabase :: "world \<Rightarrow> dump_params \<Rightarrow> error + bool" where
  "dumpDatabase w params =
     and_then (exec w (js ''docker'') (pg_dump_args params) False) (\<lambda>_.
     and_then (exec w (js ''git'') [js ''ls-files'', js ''-mo'', outputPath params] False) (\<lambda>p.
       let lines = listen_stdline p []
       in Inr (array_includes lines (outputPath params))))"

definition dbDumpHasChanged :: "world \<Rightarrow> jsstring \<Rightarrow> error + bool" where
  "dbDumpHasChanged w outputPath' =
     and_then (exec w (js ''git'') [js ''ls-files'', js ''-mo'', outputPath'] False) (\<lambda>p.
       let lines = listen_stdline p []
       in Inr (array_includes lines outputPath'))"

text \<open>\<open>lines[0]\<close>: \<open>undefined\<close> on an empty array.\<close>

definition first_line :: "jsstring list \<Rightarrow> jsstring option" where
  "first_line lines = (case lines of [] \<Rightarrow> None | l # _ \<Rightarrow> Some l)"

text \<open>The five commands of \<open>commitFile\<close>.\<close>

definition git_stash :: "jsstring \<Rightarrow> command" where
  "git_stash outputPath' = (js ''git'', [js ''stash'', js ''--'', outputPath'])"

definition test_f :: "jsstring \<Rightarrow> command" where
  "test_f outputPath' = (js ''test'', [js ''-f'', outputPath'])"

definition git_hash_object :: "jsstring \<Rightarrow> command" where
  "git_hash_object outputPath' = (js ''git'', [js ''hash-object'', outputPath'])"

definition git_stash_pop :: command where
  "git_stash_pop = (js ''git'', [js ''stash'', js ''pop''])"

definition base64_i :: "jsstring \<Rightarrow> command" where
  "base64_i outputPath' = (js ''base64'', [js ''-i'', outputPath'])"

text \<open>\<open>ran\<close> holds the commands that have run so far.\<close>

definition commitFile :: "world \<Rightarrow> jsstring \<Rightarrow> jsstring \<Rightarrow> unit io" where
  "commitFile w outputPath' branch =
     bind (lift (exec_after w [] (git_stash outputPath') False)) (\<lambda>(p, ran).
     bind (lift (exec_after w ran (test_f outputPath') True)) (\<lambda>(p, ran).
     let result = exit_code p
     in bind (if result = 0
              then bind (lift (exec_after w ran (git_hash_object outputPath') False)) (\<lambda>(p, ran).
                   let lines = listen_stdline p []
                   in pure (first_line lines, ran))
              else pure (None, ran)) (\<lambda>(sha, ran).
        bind (lift (exec_after w ran git_stash_pop False)) (\<lambda>(p, ran).
        bind (lift (exec_after w ran (base64_i outputPath') False)) (\<lambda>(p, ran).
        let content = listen_stdout p []
        in bind (octokit_repos_createOrUpdateFile w
                   \<lparr>cf_owner = context_owner w, cf_repo = context_repo w, cf_path = outputPath',
                    cf_message = js ''Update database template'', cf_content = trim content,
                    cf_sha = sha\<rparr>) (\<lambda>promise.
           bind (lift (await promise)) (\<lambda>_.
           pure ())))))))"

text \<open>
  In \<open>makePullRequest\<close> neither octokit call is awaited: \<open>pulls\<close> is the promise that
  \<open>octokit.pulls.list\<close> returned, and the promise of \<open>octokit.pulls.create\<close> is dropped.
\<close>

definition makePullRequest :: "world \<Rightarrow> jsstring \<Rightarrow> unit io" where
  "makePullRequest w branch =
     bind (emit (ConsoleLog (js ''Creating pull request'') None)) (\<lambda>_.
     bind (octokit_pulls_list w
             \<lparr>pl_owner = context_owner w, pl_repo = context_repo w, pl_state = js ''open'',
              pl_head = context_owner w @ js '':'' @ branch\<rparr>) (\<lambda>pulls.
     bind (lift (prop_of ''length'' length (prop_data pulls))) (\<lambda>n.
     if n = 0
     then bind (octokit_pulls_create w
                  \<lparr>pc_owner = context_owner w, pc_repo = context_repo w,
                   pc_title = js ''Update database template'', pc_head = branch,
                   pc_base = js ''master''\<rparr>) (\<lambda>_.
          pure ())
     else pure ())))"

text \<open>The \<open>catch\<close> of both \<open>run\<close> functions.\<close>

definition dump_failed :: "error \<Rightarrow> unit io" where
  "dump_failed error =
     bind (emit (ConsoleLog (js ''Something went wrong'') (Some error))) (\<lambda>_.
     emit (SetFailed (message error)))"

text \<open>The \<open>try\<close> block of \<open>run\<close> in dump-database/index.js.\<close>

definition dump_database_try :: "world \<Rightarrow> dump_params \<Rightarrow> jsstring \<Rightarrow> unit io" where
  "dump_database_try w params branch =
     bind (call_declared dump_database_declared ''applyMigrations'' (lift (applyMigrations w))) (\<lambda>appliedMigrations.
     bind (call_declared dump_database_declared ''dumpDatabase'' (lift (dumpDatabase w params))) (\<lambda>hasChanged.
     bind (call_declared dump_database_declared ''commitFile'' (commitFile w (outputPath params) branch)) (\<lambda>_.
     if hasChanged
     then call_declared dump_database_declared ''createPullRequest'' (makePullRequest w branch)
     else pure ())))"

text \<open>The inputs that \<open>run\<close> reads before its \<open>try\<close> block, in the order it reads them.\<close>

definition dump_inputs :: "world \<Rightarrow> error + (dump_params \<times> jsstring)" where
  "dump_inputs w =
     and_then (getInput w (js ''github-token'') True) (\<lambda>githubToken.
     and_then (getInput w (js ''output-path'') True) (\<lambda>outputPath'.
     and_then (getInput w (js ''branch'') True) (\<lambda>branch.
     and_then (getInput w (js ''docker-image'') True) (\<lambda>dockerImage'.
     and_then (getInput w (js ''db-name'') True) (\<lambda>dbName'.
     and_then (getInput w (js ''db-user'') True) (\<lambda>dbUser'.
     and_then (getInput w (js ''db-host'') True) (\<lambda>dbHost'.
     and_then (getInput w (js ''db-pass'') True) (\<lambda>dbPass'.
     and_then (getInput w (js ''db-port'') True) (\<lambda>dbPort'.
       Inr (\<lparr>dbName = dbName', dbHost = dbHost', dbPort = dbPort', dbUser = dbUser', dbPass = dbPass',
             dockerImage = dockerImage', outputPath = outputPath'\<rparr>, branch))))))))))"

definition dump_database_run :: "world \<Rightarrow> unit io" where
  "dump_database_run w =
     bind (lift (dump_inputs w)) (\<lambda>(params, branch).
     try_catch (dump_database_try w params branch) dump_failed)"

text \<open>The \<open>try\<close> block of \<open>run\<close> in the second file, and that \<open>run\<close>.\<close>

definition part_001_try :: "world \<Rightarrow> jsstring \<Rightarrow> jsstring \<Rightarrow> unit io" where
  "part_001_try w outputPath' branch =
     bind (call_declared part_001_declared ''applyMigrations'' (lift (applyMigrations w))) (\<lambda>appliedMigrations.
     bind (call_declared part_001_declared ''dbDumpHasChanged'' (lift (dbDumpHasChanged w outputPath'))) (\<lambda>hasChanged.
     bind (call_declared part_001_declared ''commitFile'' (commitFile w outputPath' branch)) (\<lambda>_.
     if hasChanged
     then call_declared part_001_declared ''createPullRequest'' (makePullRequest w branch)
     else pure ())))"

definition part_001_inputs :: "world \<Rightarrow> error + (jsstring \<times> jsstring)" where
  "part_001_inputs w =
     and_then (getInput w (js ''github-token'') True) (\<lambda>githubToken.
     and_then (getInput w (js ''output-path'') True) (\<lambda>outputPath'.
     and_then (getInput w (js ''branch'') True) (\<lambda>branch.
       Inr (outputPath', branch))))"

definition part_001_run :: "world \<Rightarrow> unit io" where
  "part_001_run w =
     bind (lift (part_001_inputs w)) (\<lambda>(outputPath', branch).
     try_catch (part_001_try w outputPath' branch) dump_failed)"

section \<open>Specification-level notions\<close>

text \<open>
  A line of the plan as the specification describes it: an opening bracket, \<open>X\<close> or a space,
  a closing bracket, some white space, the app label, a dot and the migration name, the last
  two made of word characters. The migration is unapplied when the bracket holds a space.
\<close>

definition plan_line :: "jsstring \<Rightarrow> bool \<Rightarrow> jsstring \<Rightarrow> jsstring \<Rightarrow> bool" where
  "plan_line l unapplied a m \<longleftrightarrow>
     (\<exists>c ws. l = [0x5B, c, 0x5D] @ ws @ a @ [0x2E] @ m
        \<and> (c = 0x58 \<or> c = 0x20) \<and> unapplied = (c = 0x20)
        \<and> ws \<noteq> [] \<and> list_all is_space ws
        \<and> a \<noteq> [] \<and> list_all is_word a
        \<and> m \<noteq> [] \<and> list_all is_word m)"

text \<open>A line and its reading: whether it is unapplied, its app label and its migration name.\<close>

definition is_row :: "jsstring \<Rightarrow> bool \<times> jsstring \<times> jsstring \<Rightarrow> bool" where
  "is_row l r = plan_line l (fst r) (fst (snd r)) (snd (snd r))"

text \<open>The lines that \<open>getUnappliedMigrations\<close> maps over: those of the trimmed output.\<close>

definition plan_output_lines :: "world \<Rightarrow> jsstring list" where
  "plan_output_lines w =
     split_nl (trim (concat (stdout_data (process w (js ''python'') showmigrations_args))))"

text \<open>
  The notions of the specification about the dump file. The file existed before this run
  changed it when \<open>test -f\<close> finds it once the change is stashed away. The hash-object of the
  stashed file is what \<open>git hash-object\<close> prints then, before the change is brought back.
  The encoding of the dump file is what \<open>base64\<close> prints after \<open>git stash pop\<close> has brought
  the change back.
\<close>

definition existed_before :: "world \<Rightarrow> jsstring \<Rightarrow> bool" where
  "existed_before w path \<longleftrightarrow> exit_code (worktree w [git_stash path] (test_f path)) = 0"

definition stashed_hash :: "world \<Rightarrow> jsstring \<Rightarrow> jsstring list" where
  "stashed_hash w path = stdline_data (worktree w [git_stash path, test_f path] (git_hash_object path))"

definition ran_while_stashed :: "world \<Rightarrow> jsstring \<Rightarrow> command list" where
  "ran_while_stashed w path =
     (if existed_before w path then [git_stash path, test_f path, git_hash_object path]
      else [git_stash path, test_f path])"

definition encoded_dump :: "world \<Rightarrow> jsstring \<Rightarrow> jsstring" where
  "encoded_dump w path =
     concat (stdout_data (worktree w (ran_while_stashed w path @ [git_stash_pop]) (base64_i path)))"


text \<open>
  The request for the dump file: the trimmed encoding of the file as content, and as blob SHA
  the first line of the hash-object of the stashed file when the file existed before, none
  otherwise.
\<close>

definition file_request :: "world \<Rightarrow> jsstring \<Rightarrow> file_params" where
  "file_request w path =
     \<lparr>cf_owner = context_owner w, cf_repo = context_repo w, cf_path = path,
      cf_message = js ''Update database template'',
      cf_content = trim (encoded_dump w path),
      cf_sha = (if existed_before w path then first_line (stashed_hash w path) else None)\<rparr>"

text \<open>The event of a request that opens a pull request.\<close>

fun is_pulls_create :: "event \<Rightarrow> bool" where
  "is_pulls_create (PullsCreate params) = True"
| "is_pulls_create _ = False"

text \<open>
  The life of the check run as the specification describes it, read off the check-run
  requests of a run in order: one create request, with status \<open>in_progress\<close>; after it only
  updates of the check run that this request created, each with conclusion \<open>success\<close> or
  \<open>failure\<close>; and no request after an update that GitHub accepted.
\<close>

fun is_check_event :: "event \<Rightarrow> bool" where
  "is_check_event (ChecksCreate params) = True"
| "is_check_event (ChecksUpdate params) = True"
| "is_check_event _ = False"

fun updates_follow :: "world \<Rightarrow> error + nat \<Rightarrow> event list \<Rightarrow> bool" where
  "updates_follow w created [] = True"
| "updates_follow w created (ChecksUpdate u # evs) =
     (created = Inr (cu_check_run_id u)
      \<and> (cu_conclusion u = js ''success'' \<or> cu_conclusion u = js ''failure'')
      \<and> (case checks_update w u of Inl e \<Rightarrow> updates_follow w created evs | Inr d \<Rightarrow> evs = []))"
| "updates_follow w created (ev # evs) = False"

fun follows_lifecycle :: "world \<Rightarrow> event list \<Rightarrow> bool" where
  "follows_lifecycle w (ChecksCreate p # evs) =
     (cc_status p = js ''in_progress'' \<and> updates_follow w (checks_create w p) evs)"
| "follows_lifecycle w evs = False"

text \<open>The update that reports the result of the checks.\<close>

definition report_of :: "world \<Rightarrow> nat \<Rightarrow> bool \<Rightarrow> nat \<Rightarrow> migration_output list \<Rightarrow> checks_update_params" where
  "report_of w check_run_id has n details =
     (let missing = (exit_code (process w (js ''python'') makemigrations_args) \<noteq> 0)
      in report_params w check_run_id missing (summary_of missing has n)
           (renderDetailsMarkdown missing
              (trim (concat (stdout_data (process w (js ''python'') makemigrations_args)))) has details))"

section \<open>Example runs\<close>

definition quiet :: proc where
  "quiet = \<lparr>exit_code = 0, stdout_data = [], stdline_data = []\<rparr>"

text \<open>
  A project with one applied and one unapplied migration, whose plan arrives in two buffers,
  and without a \<open>migrationlocks\<close> command.
\<close>

definition plan_world :: world where
  "plan_world =
     \<lparr>inputs = (\<lambda>name. if name = js ''github-token'' then js ''secret'' else []),
      process = (\<lambda>tool args.
        if args = showmigrations_args
        then \<lparr>exit_code = 0,
              stdout_data = [js ''[X]  shop.0001_initial'' @ [0x0A] @ js ''[ ]  shop.00'', js ''02_price'' @ [0x0A]],
              stdline_data = []\<rparr>
        else if args = manage_args (js ''sqlmigrate'') (js ''shop'') (js ''0002_price'')
        then \<lparr>exit_code = 0, stdout_data = [js ''BEGIN;'', js ''COMMIT;''], stdline_data = []\<rparr>
        else if args = manage_args (js ''migrationlocks'') (js ''shop'') (js ''0002_price'')
        then \<lparr>exit_code = 2, stdout_data = [js ''Unknown command''], stdline_data = []\<rparr>
        else quiet),
      worktree = (\<lambda>before command. quiet),
      exec_error = (\<lambda>tool code. Error (js ''The process failed'')),
      context_owner = js ''ljodal'', context_repo = js ''django-actions'', context_sha = js ''abc123'',
      now = js ''2020-01-01T00:00:00.000Z'',
      checks_create = (\<lambda>params. Inr 7),
      checks_update = (\<lambda>params. Inr 7),
      repos_createOrUpdateFile = (\<lambda>params. Inr ()),
      pulls_list = (\<lambda>params. Inr []),
      pulls_create = (\<lambda>params. Inr 1)\<rparr>"

text \<open>Every command succeeds and prints nothing.\<close>

definition silent_world :: world where
  "silent_world = plan_world\<lparr>process := (\<lambda>tool args. quiet)\<rparr>"

text \<open>Every command fails.\<close>

definition broken_world :: world where
  "broken_world =
     plan_world\<lparr>process := (\<lambda>tool args. \<lparr>exit_code = 1, stdout_data = [], stdline_data = []\<rparr>)\<rparr>"

text \<open>The plan of \<open>plan_world\<close> with the line ends of a Windows runner.\<close>

definition crlf_world :: world where
  "crlf_world =
     plan_world\<lparr>process := (\<lambda>tool args.
       \<lparr>exit_code = 0,
        stdout_data = [js ''[X]  shop.0001_initial'' @ [0x0D, 0x0A] @ js ''[ ]  shop.0002_price'' @ [0x0D, 0x0A]],
        stdline_data = []\<rparr>)\<rparr>"

text \<open>
  The change to the dump file is stashed away: \<open>git stash\<close> has run and \<open>git stash pop\<close>
  has not.
\<close>

definition stashed :: "command list \<Rightarrow> bool" where
  "stashed before \<longleftrightarrow> git_stash (js ''db.sql'') \<in> set before \<and> git_stash_pop \<notin> set before"

text \<open>
  A run of dump-database in which every command succeeds, the dump \<open>db.sql\<close> is listed as
  changed and no pull request is open. The file is in the repository and this run changed
  it: while the change is stashed, the file is there, with the hash and the encoding of the
  committed text; otherwise with those of the new text.
\<close>

definition dump_world :: world where
  "dump_world =
     \<lparr>inputs = (\<lambda>name. if name = js ''output-path'' then js ''db.sql''
                        else if name = js ''branch'' then js ''update-dump''
                        else js ''postgres''),
      process = (\<lambda>tool args.
        if args = [js ''ls-files'', js ''-mo'', js ''db.sql'']
        then \<lparr>exit_code = 0, stdout_data = [], stdline_data = [js ''db.sql'']\<rparr>
        else quiet),
      worktree = (\<lambda>before command.
        if command = git_hash_object (js ''db.sql'')
        then \<lparr>exit_code = 0, stdout_data = [],
              stdline_data = [if stashed before then js ''8ab686eafeb1f44702738c8b0f24f2567c36da6d''
                              else js ''f2ad6c76f0115a6ba5b00456a849810e7ec0af20'']\<rparr>
        else if command = base64_i (js ''db.sql'')
        then \<lparr>exit_code = 0,
              stdout_data = (if stashed before then [js ''LS0gb2xkCg=='' @ [0x0A]]
                             else [js ''LS0gUG9zdGdyZVNR'', js ''TAo='' @ [0x0A]]),
              stdline_data = []\<rparr>
        else quiet),
      exec_error = (\<lambda>tool code. Error (js ''The process failed'')),
      context_owner = js ''ljodal'', context_repo = js ''django-actions'', context_sha = js ''abc123'',
      now = js ''2020-01-01T00:00:00.000Z'',
      checks_create = (\<lambda>params. Inr 7),
      checks_update = (\<lambda>params. Inr 7),
      repos_createOrUpdateFile = (\<lambda>params. Inr ()),
      pulls_list = (\<lambda>params. Inr []),
      pulls_create = (\<lambda>params. Inr 1)\<rparr>"




text \<open>The action is used without its token.\<close>

definition no_token_world :: world where
  "no_token_world = plan_world\<lparr>inputs := (\<lambda>name. [])\<rparr>"

text \<open>A run of dump-database in which every command fails.\<close>

definition broken_dump_world :: world where
  "broken_dump_world =
     dump_world\<lparr>process := (\<lambda>tool args. \<lparr>exit_code = 1, stdout_data = [], stdline_data = []\<rparr>)\<rparr>"

text \<open>GitHub rejects the update that carries the details and accepts the other one.\<close>

definition flaky_world :: world where
  "flaky_world =
     plan_world\<lparr>checks_update := (\<lambda>params.
       if cu_output_text params = None then Inr 7 else Inl (Error (js ''Bad gateway'')))\<rparr>"

text \<open>Every migration of the plan is applied.\<close>

definition applied_world :: world where
  "applied_world =
     plan_world\<lparr>process := (\<lambda>tool args.
       if args = showmigrations_args
       then \<lparr>exit_code = 0, stdout_data = [js ''[X]  shop.0001_initial'' @ [0x0A]], stdline_data = []\<rparr>
       else quiet)\<rparr>"

section \<open>Strings and matching\<close>

lemma space_not_word: "is_space c \<Longrightarrow> \<not> is_word c"
  unfolding is_space_def is_word_def by (auto simp: word_le_nat_alt)

lemma dot_not_word: "\<not> is_word 0x2E"
  by (simp add: is_word_def)

lemma first_some_all_None: "(\<And>x. x \<in> set xs \<Longrightarrow> f x = None) \<Longrightarrow> first_some f xs = None"
  by (induction xs) auto

lemma first_some_head: "(\<And>x. x \<in> set xs \<Longrightarrow> f x = None) \<Longrightarrow> first_some f (x # xs) = f x"
  by (cases "f x") (auto simp: first_some_all_None)

lemma drop_in_run:
  assumes "n < length (takeWhile P s)"
  shows "\<exists>x xs. drop n s = x # xs \<and> P x"
proof -
  have "n < length s" using assms length_takeWhile_le[of P s] by (meson le_trans not_le)
  then have d: "drop n s = s ! n # drop (Suc n) s" by (simp add: Cons_nth_drop_Suc)
  have "P (takeWhile P s ! n)" using assms nth_mem set_takeWhileD by metis
  then have "P (s ! n)" using assms by (simp add: takeWhile_nth)
  with d show ?thesis by blast
qed

lemma rmatch_Plus_run:
  assumes "\<And>x xs. in_class cl x \<Longrightarrow> rmatch ps (x # xs) = None"
  shows "rmatch ((g, cl, Plus) # ps) s =
     (if takeWhile (in_class cl) s = [] then None
      else map_option (capture g (takeWhile (in_class cl) s)) (rmatch ps (dropWhile (in_class cl) s)))"
proof (cases "takeWhile (in_class cl) s = []")
  case True
  then show ?thesis by simp
next
  case False
  define k where "k = length (takeWhile (in_class cl) s)"
  have k: "0 < k" using False by (simp add: k_def)
  have l: "rev [1 ..< Suc k] = k # rev [1 ..< k]" using k by simp
  have none: "map_option (capture g (take n s)) (rmatch ps (drop n s)) = None"
    if "n \<in> set (rev [1 ..< k])" for n
  proof -
    from that have "n < length (takeWhile (in_class cl) s)" by (simp add: k_def)
    from drop_in_run[OF this] obtain x xs where "drop n s = x # xs" "in_class cl x" by blast
    then show ?thesis using assms by simp
  qed
  have tk: "take k s = takeWhile (in_class cl) s" unfolding k_def by (rule takeWhile_eq_take[symmetric])
  have dk: "drop k s = dropWhile (in_class cl) s" unfolding k_def by (rule dropWhile_eq_drop[symmetric])
  have "rmatch ((g, cl, Plus) # ps) s =
      first_some (\<lambda>n. map_option (capture g (take n s)) (rmatch ps (drop n s))) (k # rev [1 ..< k])"
    using l by (simp add: k_def)
  also have "\<dots> = map_option (capture g (take k s)) (rmatch ps (drop k s))"
    by (rule first_some_head) (rule none)
  finally show ?thesis using False by (simp add: tk dk)
qed

declare rmatch.simps(3) [simp del]

lemma in_class_simps: "in_class Word = is_word" "in_class Space = is_space"
  by (auto simp: fun_eq_iff)

lemma dropWhile_Nil_conv: "dropWhile P s = [] \<longleftrightarrow> list_all P s"
  by (simp add: list_all_iff dropWhile_eq_Nil_conv)

lemma map_option_capture_None: "map_option (capture None s) r = r"
  by (cases r) simp_all

lemma rmatch_name:
  "rmatch [(Some n, Word, Plus)] s = (if s \<noteq> [] \<and> list_all is_word s then Some [(n, s)] else None)"
proof -
  have pre: "rmatch [] (x # xs) = None" for x :: "16 word" and xs
    by simp
  note * = rmatch_Plus_run[of Word "[]" "Some n" s, OF pre, unfolded in_class_simps]
  show ?thesis
  proof (cases "list_all is_word s")
    case True
    then have "takeWhile is_word s = s" "dropWhile is_word s = []"
      using takeWhile_eq_all_conv[of is_word s] dropWhile_eq_Nil_conv[of is_word s]
      by (simp_all only: list_all_iff)
    with * have "rmatch [(Some n, Word, Plus)] s =
        (if s = [] then None else map_option (capture (Some n) s) (rmatch [] []))"
      by (simp only:)
    then show ?thesis using True by simp
  next
    case False
    then have "rmatch [] (dropWhile is_word s) = None" by (simp add: list_all_iff)
    then show ?thesis using False unfolding * by simp
  qed
qed

lemma rmatch_dot_name:
  "rmatch [(None, Lit 0x2E, Once), (Some n, Word, Plus)] s =
     (case s of [] \<Rightarrow> None
      | e # m \<Rightarrow> if e = 0x2E \<and> m \<noteq> [] \<and> list_all is_word m then Some [(n, m)] else None)"
  by (simp add: rmatch_name map_option_capture_None split: list.splits)

lemma rmatch_label:
  "rmatch [(Some n1, Word, Plus), (None, Lit 0x2E, Once), (Some n2, Word, Plus)] s =
     (if takeWhile is_word s = [] then None
      else map_option (capture (Some n1) (takeWhile is_word s))
             (rmatch [(None, Lit 0x2E, Once), (Some n2, Word, Plus)] (dropWhile is_word s)))"
proof -
  have pre: "rmatch [(None, Lit 0x2E, Once), (Some n2, Word, Plus)] (x # xs) = None"
    if "in_class Word x" for x xs
    using that dot_not_word by (auto simp: rmatch_dot_name)
  show ?thesis
    by (rule rmatch_Plus_run[of Word _ "Some n1" s, OF pre, unfolded in_class_simps])
qed

lemma rmatch_space:
  "rmatch [(None, Space, Plus), (Some n1, Word, Plus), (None, Lit 0x2E, Once), (Some n2, Word, Plus)] s =
     (if takeWhile is_space s = [] then None
      else rmatch [(Some n1, Word, Plus), (None, Lit 0x2E, Once), (Some n2, Word, Plus)] (dropWhile is_space s))"
proof -
  have pre: "rmatch [(Some n1, Word, Plus), (None, Lit 0x2E, Once), (Some n2, Word, Plus)] (x # xs) = None"
    if "in_class Space x" for x xs
    using that by (simp add: rmatch_label space_not_word)
  show ?thesis
    by (rule rmatch_Plus_run[of Space _ None s, OF pre, unfolded in_class_simps map_option_capture_None])
qed

lemma dropWhile_Cons_not_all: "dropWhile P xs = y # ys \<Longrightarrow> \<forall>x\<in>set xs. P x \<Longrightarrow> False"
  using dropWhile_eq_Nil_conv[of P xs] by simp

lemma js_X: "js ''X '' = [0x58, 0x20]" "js '' '' = [0x20]"
  by (simp_all add: js_def)

text \<open>What the matcher computes on a line, without backtracking.\<close>

lemma plan_regex_match:
  "rmatch plan_regex l =
     (case l of
        b # c # d # rest \<Rightarrow>
          (let r1 = dropWhile is_space rest; r2 = dropWhile is_word r1
           in if b = 0x5B \<and> (c = 0x58 \<or> c = 0x20) \<and> d = 0x5D \<and> takeWhile is_space rest \<noteq> [] \<and>
                 takeWhile is_word r1 \<noteq> [] \<and>
                 (case r2 of [] \<Rightarrow> False | e # m \<Rightarrow> e = 0x2E \<and> m \<noteq> [] \<and> list_all is_word m)
              then Some [(''applied'', [c]), (''appLabel'', takeWhile is_word r1), (''migrationName'', tl r2)]
              else None)
      | _ \<Rightarrow> None)"
  unfolding plan_regex_def
  by (auto simp: rmatch_space rmatch_label rmatch_name map_option_capture_None js_X Let_def
      split: list.splits dest: dropWhile_Cons_not_all)

lemma takeWhile_run: "list_all P xs \<Longrightarrow> \<not> P y \<Longrightarrow> takeWhile P (xs @ y # ys) = xs"
  by (induction xs) auto

lemma dropWhile_run: "list_all P xs \<Longrightarrow> \<not> P y \<Longrightarrow> dropWhile P (xs @ y # ys) = y # ys"
  by (induction xs) auto

lemma plan_line_matches:
  assumes "plan_line l u a m"
  shows "rmatch plan_regex l =
     Some [(''applied'', [if u then 0x20 else 0x58]), (''appLabel'', a), (''migrationName'', m)]"
proof -
  from assms obtain c ws where l: "l = [0x5B, c, 0x5D] @ ws @ a @ [0x2E] @ m"
    and c: "c = 0x58 \<or> c = 0x20" and u: "u = (c = 0x20)"
    and ws: "ws \<noteq> []" "list_all is_space ws"
    and a: "a \<noteq> []" "list_all is_word a"
    and m: "m \<noteq> []" "list_all is_word m"
    unfolding plan_line_def by blast
  from a obtain a0 as where a0: "a = a0 # as" by (cases a) auto
  with a have na: "\<not> is_space a0" using space_not_word by auto
  have t1: "takeWhile is_space (ws @ a @ [0x2E] @ m) = ws"
    using takeWhile_run[OF ws(2) na] by (simp add: a0)
  have d1: "dropWhile is_space (ws @ a @ [0x2E] @ m) = a @ [0x2E] @ m"
    using dropWhile_run[OF ws(2) na] by (simp add: a0)
  have t2: "takeWhile is_word (a @ [0x2E] @ m) = a"
    using takeWhile_run[OF a(2) dot_not_word] by simp
  have d2: "dropWhile is_word (a @ [0x2E] @ m) = 0x2E # m"
    using dropWhile_run[OF a(2) dot_not_word] by simp
  have l': "l = 0x5B # c # 0x5D # (ws @ a @ [0x2E] @ m)"
    by (simp add: l)
  show ?thesis
    unfolding plan_regex_match l' list.case Let_def t1 d1 t2 d2
    using c ws a m u by auto
qed

lemma matches_plan_line:
  assumes "rmatch plan_regex l = Some gs"
  shows "\<exists>u a m. plan_line l u a m
     \<and> gs = [(''applied'', [if u then 0x20 else 0x58]), (''appLabel'', a), (''migrationName'', m)]"
proof -
  from assms obtain b c d rest where l: "l = b # c # d # rest"
    by (auto simp: plan_regex_match split: list.splits)
  define ws where "ws = takeWhile is_space rest"
  define r1 where "r1 = dropWhile is_space rest"
  define a where "a = takeWhile is_word r1"
  define r2 where "r2 = dropWhile is_word r1"
  from assms have cond: "b = 0x5B" "c = 0x58 \<or> c = 0x20" "d = 0x5D" "ws \<noteq> []" "a \<noteq> []"
    and r2: "case r2 of [] \<Rightarrow> False | e # m \<Rightarrow> e = 0x2E \<and> m \<noteq> [] \<and> list_all is_word m"
    and gs: "gs = [(''applied'', [c]), (''appLabel'', a), (''migrationName'', tl r2)]"
    unfolding plan_regex_match l ws_def r1_def a_def r2_def
    by (simp_all add: Let_def split: if_splits)
  from r2 obtain m where m: "r2 = 0x2E # m" "m \<noteq> []" "list_all is_word m"
    by (cases r2) auto
  have "rest = ws @ r1" by (simp add: ws_def r1_def)
  moreover have "r1 = a @ r2" by (simp add: a_def r2_def)
  ultimately have "l = [0x5B, c, 0x5D] @ ws @ a @ [0x2E] @ m"
    using l cond m by simp
  moreover have "list_all is_space ws" "list_all is_word a"
    by (auto simp: ws_def a_def list_all_iff dest: set_takeWhileD)
  ultimately have "plan_line l (c = 0x20) a m"
    unfolding plan_line_def using cond m by blast
  moreover have "gs = [(''applied'', [if c = 0x20 then 0x20 else 0x58]), (''appLabel'', a), (''migrationName'', m)]"
    using gs cond m by auto
  ultimately show ?thesis by blast
qed

lemma plan_line_code:
  "plan_line l u a m \<longleftrightarrow>
   rmatch plan_regex l = Some [(''applied'', [if u then 0x20 else 0x58]), (''appLabel'', a), (''migrationName'', m)]"
proof
  assume "plan_line l u a m"
  then show "rmatch plan_regex l =
      Some [(''applied'', [if u then 0x20 else 0x58]), (''appLabel'', a), (''migrationName'', m)]"
    by (rule plan_line_matches)
next
  assume "rmatch plan_regex l =
      Some [(''applied'', [if u then 0x20 else 0x58]), (''appLabel'', a), (''migrationName'', m)]"
  from matches_plan_line[OF this] show "plan_line l u a m" by (auto split: if_splits)
qed

lemma no_plan_line_code: "\<not> (\<exists>u a m. plan_line l u a m) \<longleftrightarrow> rmatch plan_regex l = None"
  using matches_plan_line[of l] plan_line_matches[of l] by (cases "rmatch plan_regex l") auto

lemma classify_plan_line:
  "plan_line l u a m \<Longrightarrow> classify_line l = Inr (if u then Some (a, m) else None)"
  by (simp add: classify_line_def plan_line_matches js_X)

lemma classify_no_plan_line:
  "\<not> (\<exists>u a m. plan_line l u a m) \<Longrightarrow> classify_line l = Inl (Error (js ''Line '' @ l @ js '' did not match regex''))"
  using matches_plan_line[of l] by (cases "rmatch plan_regex l") (auto simp: classify_line_def)

lemma js_distinct: "js ''success'' \<noteq> js ''failure''"
  by (simp add: js_def)

lemma show_nat_0: "show_nat 0 = js ''0''"
  by (subst show_nat.simps) (simp add: js_def)

section \<open>Subprocesses and effects\<close>

lemma foldl_append: "foldl (\<lambda>out data. out @ data) acc xs = acc @ concat xs"
  by (induction xs arbitrary: acc) auto

lemma listen_stdout_concat: "listen_stdout p acc = acc @ concat (stdout_data p)"
  by (simp add: listen_stdout_def foldl_append)

lemma foldl_snoc: "foldl (\<lambda>lines line. lines @ [line]) acc xs = acc @ xs"
  by (induction xs arbitrary: acc) auto

lemma listen_stdline_lines: "listen_stdline p acc = acc @ stdline_data p"
  by (simp add: listen_stdline_def foldl_snoc)

lemma exec_ignore: "exec w tool args True = Inr (process w tool args)"
  by (simp add: exec_def Let_def)

lemma exec_strict:
  "exec w tool args False =
     (if exit_code (process w tool args) \<noteq> 0
      then Inl (exec_error w tool (exit_code (process w tool args)))
      else Inr (process w tool args))"
  by (simp add: exec_def Let_def)

lemma bind_lift_Inr: "bind (lift (Inr x)) f = f x"
  by (simp add: bind_def lift_def split: prod.splits)

lemma bind_lift_Inl: "bind (lift (Inl e)) f = ([], Inl e)"
  by (simp add: bind_def lift_def)

lemma bind_pure: "bind (pure x) f = f x"
  by (simp add: bind_def pure_def split: prod.splits)

lemma bind_throw: "bind (throw e) f = ([], Inl e)"
  by (simp add: bind_def throw_def)

lemma bind_emit: "bind (emit ev) f = (ev # fst (f ()), snd (f ()))"
  by (simp add: bind_def emit_def split: prod.splits)

lemma bind_Inr: "bind (es, Inr x) f = (es @ fst (f x), snd (f x))"
  by (simp add: bind_def split: prod.splits)

lemma bind_Inl: "bind (es, Inl e) f = (es, Inl e)"
  by (simp add: bind_def)

lemma try_catch_Inr: "try_catch (es, Inr x) h = (es, Inr x)"
  by (simp add: try_catch_def)

lemma try_catch_Inl: "try_catch (es, Inl e) h = (es @ fst (h e), snd (h e))"
  by (simp add: try_catch_def split: prod.splits)

lemmas io_simps = bind_lift_Inr bind_lift_Inl bind_pure bind_throw bind_emit bind_Inr bind_Inl
  try_catch_Inr try_catch_Inl

lemma try_catch_events:
  "filter P (fst body) = [] \<Longrightarrow> (\<And>e. filter P (fst (handler e)) = []) \<Longrightarrow>
   filter P (fst (try_catch body handler)) = []"
  by (cases body; cases "snd body") (auto simp: io_simps)

lemma await_Promise: "await (Promise r) = (case r of Inl e \<Rightarrow> Inl e | Inr d \<Rightarrow> Inr (Response d))"
  by (cases r) simp_all

lemma declared_simps:
  "''applyMigrations'' \<in> set dump_database_declared"
  "''dumpDatabase'' \<in> set dump_database_declared"
  "''commitFile'' \<in> set dump_database_declared"
  "''createPullRequest'' \<notin> set dump_database_declared"
  "''applyMigrations'' \<notin> set part_001_declared"
  by (simp_all add: dump_database_declared_def part_001_declared_def)

lemma call_declared_bound: "name \<in> set declared \<Longrightarrow> call_declared declared name body = body"
  by (simp add: call_declared_def)

lemma call_declared_unbound:
  "name \<notin> set declared \<Longrightarrow>
   call_declared declared name body = ([], Inl (ReferenceError (js name @ js '' is not defined'')))"
  by (simp add: call_declared_def throw_def)

section \<open>The functions of check-migrations\<close>

lemma getUnappliedMigrations_unfold:
  \<open>getUnappliedMigrations w =
     (if exit_code (process w (js ''python'') showmigrations_args) \<noteq> 0
      then Inl (Error (js ''Failed to run "showmigrations --plan"''))
      else (case map_result classify_line (plan_output_lines w) of
              Inl e \<Rightarrow> Inl e
            | Inr mapped \<Rightarrow>
                Inr (map the (filter (\<lambda>l. l \<noteq> None) mapped) \<noteq> [],
                     map the (filter (\<lambda>l. l \<noteq> None) mapped))))\<close>
  by (simp add: getUnappliedMigrations_def and_then_def exec_ignore listen_stdout_concat
      plan_output_lines_def Let_def split: sum.splits)

lemma map_result_plan_lines:
  "list_all2 is_row ls rs \<Longrightarrow>
   map_result classify_line ls = Inr (map (\<lambda>(u, a, m). if u then Some (a, m) else None) rs)"
  by (induction rule: list_all2_induct) (auto simp: is_row_def classify_plan_line)

lemma unapplied_of_rows:
  "map the (filter (\<lambda>l. l \<noteq> None) (map (\<lambda>(u, a, m). if u then Some (a, m) else None) rs)) =
   map snd (filter fst rs)"
  by (induction rs) (auto split: prod.splits)

lemma map_result_bad_line:
  "\<forall>l\<in>set pre. \<exists>u a m. plan_line l u a m \<Longrightarrow> \<not> (\<exists>u a m. plan_line bad u a m) \<Longrightarrow>
   map_result classify_line (pre @ bad # post) = Inl (Error (js ''Line '' @ bad @ js '' did not match regex''))"
proof (induction pre)
  case Nil
  then show ?case by (simp add: classify_no_plan_line)
next
  case (Cons l pre)
  then obtain u a m where "plan_line l u a m" by auto
  then have "classify_line l = Inr (if u then Some (a, m) else None)" by (rule classify_plan_line)
  with Cons show ?case by simp
qed

lemma getUnappliedMigrations_mapped:
  "exit_code (process w (js ''python'') showmigrations_args) = 0 \<Longrightarrow>
   map_result classify_line (plan_output_lines w) = Inr mapped \<Longrightarrow>
   getUnappliedMigrations w =
     Inr (map the (filter (\<lambda>l. l \<noteq> None) mapped) \<noteq> [], map the (filter (\<lambda>l. l \<noteq> None) mapped))"
  by (simp add: getUnappliedMigrations_unfold)

text \<open>
  C2, as stated: every line is trimmed and then classified with the regular expression. On
  the plan of \<open>crlf_world\<close> every trimmed line is a line of the plan, the second one
  unapplied, so a result holding \<open>shop.0002_price\<close> is claimed; the script trims the output as
  a whole only, the first line keeps its carriage return, and the function throws.
\<close>

theorem getUnappliedMigrations_trimmed_lines_counterexample:
  "exit_code (process crlf_world (js ''python'') showmigrations_args) = 0
   \<and> list_all2 is_row (map trim (plan_output_lines crlf_world))
         [(False, js ''shop'', js ''0001_initial''), (True, js ''shop'', js ''0002_price'')]
   \<and> getUnappliedMigrations crlf_world =
         Inl (Error (js ''Line [X]  shop.0001_initial'' @ [0x0D] @ js '' did not match regex''))"
proof -
  have "map trim (plan_output_lines crlf_world) = [js ''[X]  shop.0001_initial'', js ''[ ]  shop.0002_price'']"
    by code_simp
  moreover have "plan_line (js ''[X]  shop.0001_initial'') False (js ''shop'') (js ''0001_initial'')"
    unfolding plan_line_code by code_simp
  moreover have "plan_line (js ''[ ]  shop.0002_price'') True (js ''shop'') (js ''0002_price'')"
    unfolding plan_line_code by code_simp
  moreover have "exit_code (process crlf_world (js ''python'') showmigrations_args) = 0"
    by code_simp
  moreover have "getUnappliedMigrations crlf_world =
      Inl (Error (js ''Line [X]  shop.0001_initial'' @ [0x0D] @ js '' did not match regex''))"
    by code_simp
  ultimately show ?thesis by (simp add: is_row_def)
qed

text \<open>
  C2, amended: \<open>getUnappliedMigrations\<close> classifies the lines of the trimmed output of
  \<open>showmigrations --plan\<close> (the output is trimmed as a whole and split at the line feeds; the
  lines are not trimmed one by one). When every such line is a line of the plan, it returns
  exactly the (app label, migration name) pairs of the unapplied lines, in input order, and
  leaves the applied ones out. The first line that is not a line of the plan makes it throw,
  naming that line; it also throws when the command exits with a non-zero code.
\<close>

theorem getUnappliedMigrations_classifies:
  \<open>(exit_code (process w (js ''python'') showmigrations_args) \<noteq> 0 \<longrightarrow>
      getUnappliedMigrations w = Inl (Error (js ''Failed to run "showmigrations --plan"'')))
   \<and> (exit_code (process w (js ''python'') showmigrations_args) = 0
      \<and> list_all2 is_row (plan_output_lines w) rs \<longrightarrow>
      getUnappliedMigrations w = Inr (map snd (filter fst rs) \<noteq> [], map snd (filter fst rs)))
   \<and> (exit_code (process w (js ''python'') showmigrations_args) = 0
      \<and> plan_output_lines w = pre @ bad # post
      \<and> (\<forall>l\<in>set pre. \<exists>u a m. plan_line l u a m) \<and> \<not> (\<exists>u a m. plan_line bad u a m) \<longrightarrow>
      getUnappliedMigrations w = Inl (Error (js ''Line '' @ bad @ js '' did not match regex'')))\<close>
proof (intro conjI impI)
  assume "exit_code (process w (js ''python'') showmigrations_args) \<noteq> 0"
  then show \<open>getUnappliedMigrations w = Inl (Error (js ''Failed to run "showmigrations --plan"''))\<close>
    by (simp add: getUnappliedMigrations_unfold)
next
  assume "exit_code (process w (js ''python'') showmigrations_args) = 0
    \<and> list_all2 is_row (plan_output_lines w) rs"
  then have ok: "exit_code (process w (js ''python'') showmigrations_args) = 0"
    and rows: "list_all2 is_row (plan_output_lines w) rs"
    by simp_all
  show "getUnappliedMigrations w = Inr (map snd (filter fst rs) \<noteq> [], map snd (filter fst rs))"
    using getUnappliedMigrations_mapped[OF ok map_result_plan_lines[OF rows]]
    by (simp only: unapplied_of_rows)
next
  assume "exit_code (process w (js ''python'') showmigrations_args) = 0
    \<and> plan_output_lines w = pre @ bad # post
    \<and> (\<forall>l\<in>set pre. \<exists>u a m. plan_line l u a m) \<and> \<not> (\<exists>u a m. plan_line bad u a m)"
  then show "getUnappliedMigrations w = Inl (Error (js ''Line '' @ bad @ js '' did not match regex''))"
    using map_result_bad_line[of pre bad post] by (simp add: getUnappliedMigrations_unfold)
qed

text \<open>
  The three cases of the amended C2 on runs: a failing command; the plan of \<open>plan_world\<close>,
  whose second line is unapplied; and an empty output, whose only line is the empty string.
\<close>

theorem getUnappliedMigrations_classifies_witness:
  \<open>getUnappliedMigrations broken_world = Inl (Error (js ''Failed to run "showmigrations --plan"''))
   \<and> plan_output_lines plan_world = [js ''[X]  shop.0001_initial'', js ''[ ]  shop.0002_price'']
   \<and> getUnappliedMigrations plan_world = Inr (True, [(js ''shop'', js ''0002_price'')])
   \<and> plan_output_lines silent_world = [[]]
   \<and> getUnappliedMigrations silent_world = Inl (Error (js ''Line  did not match regex''))\<close>
proof -
  have b: "exit_code (process broken_world (js ''python'') showmigrations_args) \<noteq> 0"
    by code_simp
  have p0: "exit_code (process plan_world (js ''python'') showmigrations_args) = 0"
    by code_simp
  have pl: "plan_output_lines plan_world = [js ''[X]  shop.0001_initial'', js ''[ ]  shop.0002_price'']"
    by code_simp
  have r1: "is_row (js ''[X]  shop.0001_initial'') (False, js ''shop'', js ''0001_initial'')"
    unfolding is_row_def fst_conv snd_conv plan_line_code by code_simp
  have r2: "is_row (js ''[ ]  shop.0002_price'') (True, js ''shop'', js ''0002_price'')"
    unfolding is_row_def fst_conv snd_conv plan_line_code by code_simp
  have s0: "exit_code (process silent_world (js ''python'') showmigrations_args) = 0"
    by code_simp
  have sl: "plan_output_lines silent_world = [] @ [] # []"
    by code_simp
  have bad: "\<not> (\<exists>u a m. plan_line [] u a m)"
    unfolding no_plan_line_code by code_simp
  have e: "js ''Line '' @ [] @ js '' did not match regex'' = js ''Line  did not match regex''"
    by code_simp
  show ?thesis
    using getUnappliedMigrations_classifies[of broken_world "[]" "[]" "[]" "[]"] b
      getUnappliedMigrations_classifies[of plan_world
        "[(False, js ''shop'', js ''0001_initial''), (True, js ''shop'', js ''0002_price'')]" "[]" "[]" "[]"]
      p0 pl r1 r2
      getUnappliedMigrations_classifies[of silent_world "[]" "[]" "[]" "[]"] s0 sl bad e
    by simp
qed

text \<open>
  C4: for a migration (app label, migration name), \<open>getMigrationOutput\<close> throws when
  \<open>sqlmigrate\<close> exits with a non-zero code; otherwise it returns the migration, the captured
  output of \<open>sqlmigrate\<close> as the SQL text, and as locks the captured output of the lock
  command alone when that command exits with 0, and \<open>null\<close> when it does not.
\<close>

theorem getMigrationOutput_record:
  "getMigrationOutput w command (a, m) =
     (if exit_code (process w (js ''python'') (manage_args (js ''sqlmigrate'') a m)) \<noteq> 0
      then Inl (Error (js ''Failed to run sqlmigrate''))
      else Inr \<lparr>appLabel = a, migrationName = m,
                sql = concat (stdout_data (process w (js ''python'') (manage_args (js ''sqlmigrate'') a m))),
                locks = (if exit_code (process w (js ''python'') (manage_args command a m)) = 0
                         then Some (concat (stdout_data (process w (js ''python'') (manage_args command a m))))
                         else None)\<rparr>)"
  by (simp add: getMigrationOutput_def and_then_def exec_ignore listen_stdout_concat Let_def)

text \<open>
  C4 on runs: a project without the lock command, a project whose commands print nothing,
  and a failing \<open>sqlmigrate\<close>.
\<close>

theorem getMigrationOutput_record_witness:
  "getMigrationOutput plan_world (js ''migrationlocks'') (js ''shop'', js ''0002_price'') =
     Inr \<lparr>appLabel = js ''shop'', migrationName = js ''0002_price'', sql = js ''BEGIN;COMMIT;'', locks = None\<rparr>
   \<and> getMigrationOutput silent_world (js ''migrationlocks'') (js ''shop'', js ''0002_price'') =
     Inr \<lparr>appLabel = js ''shop'', migrationName = js ''0002_price'', sql = [], locks = Some []\<rparr>
   \<and> getMigrationOutput broken_world (js ''migrationlocks'') (js ''shop'', js ''0002_price'') =
     Inl (Error (js ''Failed to run sqlmigrate''))"
  unfolding getMigrationOutput_record by code_simp

text \<open>
  C9: whenever \<open>getUnappliedMigrations\<close> returns, its flag is true exactly when its list is
  not empty; \<open>checkMissingMigrations\<close> always returns, whatever the exit code of
  \<open>makemigrations\<close>, and its flag is true exactly when that exit code is not zero.
\<close>

theorem flags_agree:
  "(getUnappliedMigrations w = Inr (b, ms) \<longrightarrow> (b \<longleftrightarrow> ms \<noteq> []))
   \<and> (\<exists>out. checkMissingMigrations w =
          Inr (exit_code (process w (js ''python'') makemigrations_args) \<noteq> 0, out))"
  by (auto simp: getUnappliedMigrations_def checkMissingMigrations_def and_then_def exec_ignore Let_def
      split: sum.splits if_splits)

text \<open>C9 on runs: a plan with an unapplied migration, and a failing \<open>makemigrations\<close>.\<close>

theorem flags_agree_witness:
  "getUnappliedMigrations plan_world = Inr (True, [(js ''shop'', js ''0002_price'')])
   \<and> (True \<longleftrightarrow> [(js ''shop'', js ''0002_price'')] \<noteq> ([] :: (jsstring \<times> jsstring) list))
   \<and> (\<exists>out. checkMissingMigrations broken_world = Inr (True, out))"
proof -
  have r: "getUnappliedMigrations plan_world = Inr (True, [(js ''shop'', js ''0002_price'')])"
    by code_simp
  have x: "exit_code (process broken_world (js ''python'') makemigrations_args) \<noteq> 0"
    by code_simp
  show ?thesis
    using flags_agree[of plan_world True "[(js ''shop'', js ''0002_price'')]"] r
      flags_agree[of broken_world True "[]"] x
    by simp
qed

section \<open>The run of check-migrations\<close>

lemma create_check_run_unfold:
  "create_check_run w =
     (case checks_create w (in_progress_params w) of
        Inl e \<Rightarrow> ([ChecksCreate (in_progress_params w), SetFailed (message e)], Inr None)
      | Inr d \<Rightarrow> ([ChecksCreate (in_progress_params w), ConsoleLog (js ''Check run'') None],
                  Inr (Some (Response d))))"
  by (simp add: create_check_run_def octokit_checks_create_def io_simps await_Promise pure_def emit_def
      split: sum.splits)

lemma check_failed_unfold:
  "check_failed w (Response d) e =
     ([ConsoleLog (js ''Something went wrong'') (Some e), SetFailed (message e),
       ChecksUpdate (failure_params w d)],
      case checks_update w (failure_params w d) of Inl e' \<Rightarrow> Inl e' | Inr r \<Rightarrow> Inr ())"
  by (simp add: check_failed_def octokit_checks_update_def io_simps await_Promise pure_def emit_def prop_of_def
      split: sum.splits)

lemma checkMissingMigrations_unfold:
  "checkMissingMigrations w =
     Inr (exit_code (process w (js ''python'') makemigrations_args) \<noteq> 0,
          trim (concat (stdout_data (process w (js ''python'') makemigrations_args))))"
  by (simp add: checkMissingMigrations_def and_then_def exec_ignore listen_stdout_concat Let_def)

lemma check_migrations_unfold:
  "check_migrations w command (Response d) =
     (case getUnappliedMigrations w of
        Inl e \<Rightarrow> ([], Inl e)
      | Inr (has, ms) \<Rightarrow>
          (case map_result (getMigrationOutput w command) ms of
             Inl e \<Rightarrow> ([], Inl e)
           | Inr details \<Rightarrow>
               (case checks_update w (report_of w d has (length ms) details) of
                  Inl e \<Rightarrow> ([ChecksUpdate (report_of w d has (length ms) details)], Inl e)
                | Inr r \<Rightarrow> ([ChecksUpdate (report_of w d has (length ms) details),
                             ConsoleLog (js ''Update result'') None], Inr ()))))"
  by (simp add: check_migrations_def checkMissingMigrations_unfold octokit_checks_update_def io_simps
      await_Promise emit_def prop_of_def report_of_def Let_def split: sum.splits prod.splits)

lemma lock_command_returns: "\<exists>command. lock_command w = Inr command"
  by (simp add: lock_command_def getInput_def and_then_def Let_def)

lemma check_migrations_run_unfold:
  "getInput w (js ''github-token'') True = Inr token \<Longrightarrow> lock_command w = Inr command \<Longrightarrow>
   check_migrations_run w = check_and_report w command"
  by (simp add: check_migrations_run_def io_simps)

lemma check_and_report_created:
  "checks_create w (in_progress_params w) = Inr d \<Longrightarrow>
   check_and_report w command =
     (case check_migrations w command (Response d) of
        (es, Inl e) \<Rightarrow>
          ([ChecksCreate (in_progress_params w), ConsoleLog (js ''Check run'') None] @ es @
           [ConsoleLog (js ''Something went wrong'') (Some e), SetFailed (message e),
            ChecksUpdate (failure_params w d)],
           case checks_update w (failure_params w d) of Inl e' \<Rightarrow> Inl e' | Inr r \<Rightarrow> Inr ())
      | (es, Inr x) \<Rightarrow>
          ([ChecksCreate (in_progress_params w), ConsoleLog (js ''Check run'') None] @ es, Inr ()))"
  by (simp add: check_and_report_def create_check_run_unfold io_simps check_failed_unfold
      split: prod.splits sum.splits)

lemma check_and_report_not_created:
  "checks_create w (in_progress_params w) = Inl e \<Longrightarrow>
   check_and_report w command = ([ChecksCreate (in_progress_params w), SetFailed (message e)], Inr ())"
  by (simp add: check_and_report_def create_check_run_unfold io_simps pure_def)

lemma check_events_created:
  assumes "checks_create w (in_progress_params w) = Inr d"
  shows "follows_lifecycle w (filter is_check_event (fst (check_and_report w command)))"
proof -
  have s: "cc_status (in_progress_params w) = js ''in_progress''"
    by (simp add: in_progress_params_def)
  have f: "cu_check_run_id (failure_params w d) = d" "cu_conclusion (failure_params w d) = js ''failure''"
    by (simp_all add: failure_params_def)
  have r: "cu_check_run_id (report_of w d has n details) = d"
    "cu_conclusion (report_of w d has n details) = js ''success''
      \<or> cu_conclusion (report_of w d has n details) = js ''failure''" for has n details
    by (simp_all add: report_of_def report_params_def Let_def)
  show ?thesis
    unfolding check_and_report_created[OF assms] check_migrations_unfold
    using assms s f r
    by (auto split: sum.splits prod.splits)
qed

text \<open>
  C8, as stated, claims a check run created exactly once in every run. Without the required
  input \<open>github-token\<close>, \<open>core.getInput\<close> throws before the first \<open>try\<close> block and the run
  sends no request at all.
\<close>

theorem check_run_lifecycle_counterexample:
  "inputs no_token_world (js ''github-token'') = []
   \<and> check_migrations_run no_token_world =
        ([], Inl (Error (js ''Input required and not supplied: github-token'')))
   \<and> filter is_check_event (fst (check_migrations_run no_token_world)) = []
   \<and> \<not> follows_lifecycle no_token_world (filter is_check_event (fst (check_migrations_run no_token_world)))"
  by code_simp

text \<open>
  C8, amended: in every run of check-migrations in which the required input \<open>github-token\<close>
  is supplied, the check-run requests follow the life of the check run: the creation is
  requested exactly once, with status \<open>in_progress\<close>, then come only updates of the created
  check run with conclusion \<open>success\<close> or \<open>failure\<close>, and none after an update that GitHub
  accepted.
\<close>

theorem check_run_lifecycle:
  "getInput w (js ''github-token'') True = Inr token \<longrightarrow>
   follows_lifecycle w (filter is_check_event (fst (check_migrations_run w)))"
proof
  assume t: "getInput w (js ''github-token'') True = Inr token"
  obtain command where c: "lock_command w = Inr command"
    using lock_command_returns by blast
  show "follows_lifecycle w (filter is_check_event (fst (check_migrations_run w)))"
  proof (cases "checks_create w (in_progress_params w)")
    case (Inl e)
    then show ?thesis
      by (simp add: check_migrations_run_unfold[OF t c] check_and_report_not_created in_progress_params_def)
  next
    case (Inr d)
    then show ?thesis
      by (simp add: check_migrations_run_unfold[OF t c] check_events_created)
  qed
qed

text \<open>
  The amended C8 on a run in which GitHub rejects the first update: the handler sends the
  second one.
\<close>

theorem check_run_lifecycle_witness:
  "getInput flaky_world (js ''github-token'') True = Inr (js ''secret'')
   \<and> filter is_check_event (fst (check_migrations_run flaky_world)) =
       [ChecksCreate (in_progress_params flaky_world),
        ChecksUpdate (report_of flaky_world 7 True 1
          [\<lparr>appLabel = js ''shop'', migrationName = js ''0002_price'', sql = js ''BEGIN;COMMIT;'', locks = None\<rparr>]),
        ChecksUpdate (failure_params flaky_world 7)]
   \<and> follows_lifecycle flaky_world (filter is_check_event (fst (check_migrations_run flaky_world)))"
proof -
  have t: "getInput flaky_world (js ''github-token'') True = Inr (js ''secret'')"
    by code_simp
  have e: "filter is_check_event (fst (check_migrations_run flaky_world)) =
       [ChecksCreate (in_progress_params flaky_world),
        ChecksUpdate (report_of flaky_world 7 True 1
          [\<lparr>appLabel = js ''shop'', migrationName = js ''0002_price'', sql = js ''BEGIN;COMMIT;'', locks = None\<rparr>]),
        ChecksUpdate (failure_params flaky_world 7)]"
    by code_simp
  from check_run_lifecycle[of flaky_world "js ''secret''"] t
  have f: "follows_lifecycle flaky_world (filter is_check_event (fst (check_migrations_run flaky_world)))"
    by blast
  show ?thesis by (rule conjI[OF t conjI[OF e f]])
qed

text \<open>
  C10: on the path without errors the run creates the check run and sends one update. Its
  conclusion is \<open>failure\<close> exactly when \<open>makemigrations --check\<close> exited with a non-zero code
  (missing migrations); without missing migrations the conclusion is \<open>success\<close>, also when
  there are unapplied migrations, and the summary is the number of unapplied migrations
  followed by \<open>new migrations\<close>, which reads \<open>0 new migrations\<close> when there are none.
\<close>

theorem conclusion_and_summary:
  "(getInput w (js ''github-token'') True = Inr token \<and> lock_command w = Inr command
      \<and> checks_create w (in_progress_params w) = Inr d
      \<and> getUnappliedMigrations w = Inr (has, ms)
      \<and> map_result (getMigrationOutput w command) ms = Inr details
      \<and> checks_update w (report_of w d has (length ms) details) = Inr r \<longrightarrow>
      check_migrations_run w =
        ([ChecksCreate (in_progress_params w), ConsoleLog (js ''Check run'') None,
          ChecksUpdate (report_of w d has (length ms) details),
          ConsoleLog (js ''Update result'') None], Inr ()))
   \<and> (cu_conclusion (report_of w d has (length ms) details) = js ''failure''
        \<longleftrightarrow> exit_code (process w (js ''python'') makemigrations_args) \<noteq> 0)
   \<and> (exit_code (process w (js ''python'') makemigrations_args) = 0 \<longrightarrow>
        cu_conclusion (report_of w d has (length ms) details) = js ''success''
        \<and> cu_output_summary (report_of w d has (length ms) details) =
            show_nat (length ms) @ js '' new migrations'')
   \<and> (exit_code (process w (js ''python'') makemigrations_args) = 0 \<and> ms = [] \<longrightarrow>
        cu_output_summary (report_of w d has (length ms) details) = js ''0 new migrations'')"
proof (intro conjI impI)
  assume "getInput w (js ''github-token'') True = Inr token \<and> lock_command w = Inr command
      \<and> checks_create w (in_progress_params w) = Inr d
      \<and> getUnappliedMigrations w = Inr (has, ms)
      \<and> map_result (getMigrationOutput w command) ms = Inr details
      \<and> checks_update w (report_of w d has (length ms) details) = Inr r"
  then show "check_migrations_run w =
        ([ChecksCreate (in_progress_params w), ConsoleLog (js ''Check run'') None,
          ChecksUpdate (report_of w d has (length ms) details),
          ConsoleLog (js ''Update result'') None], Inr ())"
    by (simp add: check_migrations_run_unfold check_and_report_created check_migrations_unfold)
next
  show "cu_conclusion (report_of w d has (length ms) details) = js ''failure''
        \<longleftrightarrow> exit_code (process w (js ''python'') makemigrations_args) \<noteq> 0"
    using js_distinct by (simp add: report_of_def report_params_def Let_def)
next
  assume "exit_code (process w (js ''python'') makemigrations_args) = 0"
  then show "cu_conclusion (report_of w d has (length ms) details) = js ''success''"
    by (simp add: report_of_def report_params_def Let_def)
next
  assume "exit_code (process w (js ''python'') makemigrations_args) = 0"
  then show "cu_output_summary (report_of w d has (length ms) details) =
      show_nat (length ms) @ js '' new migrations''"
    by (simp add: report_of_def report_params_def summary_of_def Let_def)
next
  assume "exit_code (process w (js ''python'') makemigrations_args) = 0 \<and> ms = []"
  then show "cu_output_summary (report_of w d has (length ms) details) = js ''0 new migrations''"
    by (simp add: report_of_def report_params_def summary_of_def Let_def show_nat_0 js_def)
qed

text \<open>
  C10 on runs: one unapplied migration and none missing; every migration applied; and
  missing migrations.
\<close>

theorem conclusion_and_summary_witness:
  "check_migrations_run plan_world =
     ([ChecksCreate (in_progress_params plan_world), ConsoleLog (js ''Check run'') None,
       ChecksUpdate (report_of plan_world 7 True 1
         [\<lparr>appLabel = js ''shop'', migrationName = js ''0002_price'', sql = js ''BEGIN;COMMIT;'', locks = None\<rparr>]),
       ConsoleLog (js ''Update result'') None], Inr ())
   \<and> cu_conclusion (report_of plan_world 7 True 1
         [\<lparr>appLabel = js ''shop'', migrationName = js ''0002_price'', sql = js ''BEGIN;COMMIT;'', locks = None\<rparr>])
       = js ''success''
   \<and> cu_output_summary (report_of plan_world 7 True 1
         [\<lparr>appLabel = js ''shop'', migrationName = js ''0002_price'', sql = js ''BEGIN;COMMIT;'', locks = None\<rparr>])
       = js ''1 new migrations''
   \<and> getUnappliedMigrations applied_world = Inr (False, [])
   \<and> cu_output_summary (report_of applied_world 7 False 0 []) = js ''0 new migrations''
   \<and> cu_conclusion (report_of broken_world 7 False 0 []) = js ''failure''"
proof -
  have len: "length [(js ''shop'', js ''0002_price'')] = 1" "length ([] :: (jsstring \<times> jsstring) list) = 0"
    by simp_all
  have h: "getInput plan_world (js ''github-token'') True = Inr (js ''secret'')
      \<and> lock_command plan_world = Inr (js ''migrationlocks'')
      \<and> checks_create plan_world (in_progress_params plan_world) = Inr 7
      \<and> getUnappliedMigrations plan_world = Inr (True, [(js ''shop'', js ''0002_price'')])
      \<and> map_result (getMigrationOutput plan_world (js ''migrationlocks'')) [(js ''shop'', js ''0002_price'')] =
          Inr [\<lparr>appLabel = js ''shop'', migrationName = js ''0002_price'', sql = js ''BEGIN;COMMIT;'', locks = None\<rparr>]
      \<and> checks_update plan_world (report_of plan_world 7 True 1
          [\<lparr>appLabel = js ''shop'', migrationName = js ''0002_price'', sql = js ''BEGIN;COMMIT;'', locks = None\<rparr>]) = Inr 7"
    by code_simp
  have m: "exit_code (process plan_world (js ''python'') makemigrations_args) = 0"
    by code_simp
  have n: "show_nat 1 @ js '' new migrations'' = js ''1 new migrations''"
    by code_simp
  have a: "getUnappliedMigrations applied_world = Inr (False, [])"
    by code_simp
  have am: "exit_code (process applied_world (js ''python'') makemigrations_args) = 0"
    by code_simp
  have bm: "exit_code (process broken_world (js ''python'') makemigrations_args) \<noteq> 0"
    by code_simp
  note p = conclusion_and_summary[where w = plan_world and token = "js ''secret''"
      and command = "js ''migrationlocks''" and d = 7 and has = True and ms = "[(js ''shop'', js ''0002_price'')]"
      and details = "[\<lparr>appLabel = js ''shop'', migrationName = js ''0002_price'', sql = js ''BEGIN;COMMIT;'', locks = None\<rparr>]"
      and r = 7, unfolded len]
  note q = conclusion_and_summary[where w = applied_world and d = 7 and has = False and ms = "[]" and details = "[]",
      unfolded len]
  note b = conclusion_and_summary[where w = broken_world and d = 7 and has = False and ms = "[]" and details = "[]",
      unfolded len]
  from p h have 1: "check_migrations_run plan_world =
     ([ChecksCreate (in_progress_params plan_world), ConsoleLog (js ''Check run'') None,
       ChecksUpdate (report_of plan_world 7 True 1
         [\<lparr>appLabel = js ''shop'', migrationName = js ''0002_price'', sql = js ''BEGIN;COMMIT;'', locks = None\<rparr>]),
       ConsoleLog (js ''Update result'') None], Inr ())"
    by blast
  from p m have 2: "cu_conclusion (report_of plan_world 7 True 1
         [\<lparr>appLabel = js ''shop'', migrationName = js ''0002_price'', sql = js ''BEGIN;COMMIT;'', locks = None\<rparr>])
       = js ''success''"
    by blast
  from p m have "cu_output_summary (report_of plan_world 7 True 1
         [\<lparr>appLabel = js ''shop'', migrationName = js ''0002_price'', sql = js ''BEGIN;COMMIT;'', locks = None\<rparr>])
       = show_nat 1 @ js '' new migrations''"
    by blast
  then have 3: "cu_output_summary (report_of plan_world 7 True 1
         [\<lparr>appLabel = js ''shop'', migrationName = js ''0002_price'', sql = js ''BEGIN;COMMIT;'', locks = None\<rparr>])
       = js ''1 new migrations''"
    by (simp only: n)
  from q am have 4: "cu_output_summary (report_of applied_world 7 False 0 []) = js ''0 new migrations''"
    by blast
  from b bm have 5: "cu_conclusion (report_of broken_world 7 False 0 []) = js ''failure''"
    by blast
  show ?thesis
    by (rule conjI[OF 1 conjI[OF 2 conjI[OF 3 conjI[OF a conjI[OF 4 5]]]]])
qed

section \<open>The functions and the run of dump-database\<close>

text \<open>
  C5: once its commands have run, the detection of a changed dump returns whether the output
  path is one of the lines that \<open>git ls-files -mo\<close> printed for it, in \<open>dumpDatabase\<close> and in
  \<open>dbDumpHasChanged\<close>; a command that exits with a non-zero code makes it throw instead. It
  never returns true on an empty listing.
\<close>

theorem dump_changed_iff_listed:
  "dumpDatabase w params =
     (if exit_code (process w (js ''docker'') (pg_dump_args params)) \<noteq> 0
      then Inl (exec_error w (js ''docker'') (exit_code (process w (js ''docker'') (pg_dump_args params))))
      else if exit_code (process w (js ''git'') [js ''ls-files'', js ''-mo'', outputPath params]) \<noteq> 0
      then Inl (exec_error w (js ''git'')
                  (exit_code (process w (js ''git'') [js ''ls-files'', js ''-mo'', outputPath params])))
      else Inr (outputPath params
                  \<in> set (stdline_data (process w (js ''git'') [js ''ls-files'', js ''-mo'', outputPath params]))))
   \<and> dbDumpHasChanged w path =
     (if exit_code (process w (js ''git'') [js ''ls-files'', js ''-mo'', path]) \<noteq> 0
      then Inl (exec_error w (js ''git'') (exit_code (process w (js ''git'') [js ''ls-files'', js ''-mo'', path])))
      else Inr (path \<in> set (stdline_data (process w (js ''git'') [js ''ls-files'', js ''-mo'', path]))))
   \<and> (stdline_data (process w (js ''git'') [js ''ls-files'', js ''-mo'', outputPath params]) = [] \<longrightarrow>
        dumpDatabase w params \<noteq> Inr True)
   \<and> (stdline_data (process w (js ''git'') [js ''ls-files'', js ''-mo'', path]) = [] \<longrightarrow>
        dbDumpHasChanged w path \<noteq> Inr True)"
  by (simp add: dumpDatabase_def dbDumpHasChanged_def and_then_def exec_strict listen_stdline_lines
      array_includes_def Let_def)

text \<open>C5 on runs: a listing that holds the path, and an empty listing.\<close>

theorem dump_changed_iff_listed_witness:
  "dumpDatabase dump_world
     \<lparr>dbName = js ''postgres'', dbHost = js ''postgres'', dbPort = js ''postgres'', dbUser = js ''postgres'',
      dbPass = js ''postgres'', dockerImage = js ''postgres'', outputPath = js ''db.sql''\<rparr> = Inr True
   \<and> stdline_data (process silent_world (js ''git'') [js ''ls-files'', js ''-mo'', js ''db.sql'']) = []
   \<and> dbDumpHasChanged silent_world (js ''db.sql'') = Inr False
   \<and> dbDumpHasChanged silent_world (js ''db.sql'') \<noteq> Inr True"
proof -
  have e: "stdline_data (process silent_world (js ''git'') [js ''ls-files'', js ''-mo'', js ''db.sql'']) = []"
    by code_simp
  have d: "dumpDatabase dump_world
     \<lparr>dbName = js ''postgres'', dbHost = js ''postgres'', dbPort = js ''postgres'', dbUser = js ''postgres'',
      dbPass = js ''postgres'', dockerImage = js ''postgres'', outputPath = js ''db.sql''\<rparr> = Inr True"
    by code_simp
  have s: "dbDumpHasChanged silent_world (js ''db.sql'') = Inr False"
    by code_simp
  from dump_changed_iff_listed[where w = silent_world and path = "js ''db.sql''"] e
  have "dbDumpHasChanged silent_world (js ''db.sql'') \<noteq> Inr True"
    by blast
  with e d s show ?thesis by simp
qed

lemma exec_after_ignore:
  "exec_after w before command True = Inr (worktree w before command, before @ [command])"
  by (simp add: exec_after_def Let_def)

lemma exec_after_strict:
  "exec_after w before command False =
     (if exit_code (worktree w before command) \<noteq> 0
      then Inl (exec_error w (fst command) (exit_code (worktree w before command)))
      else Inr (worktree w before command, before @ [command]))"
  by (simp add: exec_after_def Let_def)

lemma commitFile_unfold:
  "commitFile w path branch =
     (if exit_code (worktree w [] (git_stash path)) \<noteq> 0
      then ([], Inl (exec_error w (js ''git'') (exit_code (worktree w [] (git_stash path)))))
      else if existed_before w path
              \<and> exit_code (worktree w [git_stash path, test_f path] (git_hash_object path)) \<noteq> 0
      then ([], Inl (exec_error w (js ''git'')
                       (exit_code (worktree w [git_stash path, test_f path] (git_hash_object path)))))
      else if exit_code (worktree w (ran_while_stashed w path) git_stash_pop) \<noteq> 0
      then ([], Inl (exec_error w (js ''git'')
                       (exit_code (worktree w (ran_while_stashed w path) git_stash_pop))))
      else if exit_code (worktree w (ran_while_stashed w path @ [git_stash_pop]) (base64_i path)) \<noteq> 0
      then ([], Inl (exec_error w (js ''base64'')
                       (exit_code (worktree w (ran_while_stashed w path @ [git_stash_pop]) (base64_i path)))))
      else ([CreateOrUpdateFile (file_request w path)],
            case repos_createOrUpdateFile w (file_request w path) of Inl e \<Rightarrow> Inl e | Inr d \<Rightarrow> Inr ()))"
proof -
  have tools: "fst (git_stash path) = js ''git''" "fst (git_hash_object path) = js ''git''"
    "fst git_stash_pop = js ''git''" "fst (base64_i path) = js ''base64''"
    by (simp_all add: git_stash_def git_hash_object_def git_stash_pop_def base64_i_def)
  show ?thesis
    by (simp add: commitFile_def exec_after_strict exec_after_ignore io_simps Let_def listen_stdline_lines
        listen_stdout_concat octokit_repos_createOrUpdateFile_def file_request_def await_Promise pure_def
        existed_before_def stashed_hash_def ran_while_stashed_def encoded_dump_def tools
        split: sum.splits)
qed





lemma makePullRequest_always_throws:
  "makePullRequest w branch =
     ([ConsoleLog (js ''Creating pull request'') None,
       PullsList \<lparr>pl_owner = context_owner w, pl_repo = context_repo w, pl_state = js ''open'',
                  pl_head = context_owner w @ js '':'' @ branch\<rparr>],
      Inl (TypeError (js ''Cannot read property '' @ [0x27] @ js ''length'' @ [0x27] @ js '' of undefined'')))"
  by (simp add: makePullRequest_def io_simps octokit_pulls_list_def prop_of_def)

text \<open>
  C7 on a run in which no pull request is open for the branch, where the claim has a pull
  request created: \<open>makePullRequest\<close> sends the list request, reads \<open>data\<close> of the promise
  that was not awaited, and throws before any create request.
\<close>

theorem makePullRequest_never_creates:
  "pulls_list dump_world
     \<lparr>pl_owner = js ''ljodal'', pl_repo = js ''django-actions'', pl_state = js ''open'',
      pl_head = js ''ljodal:update-dump''\<rparr> = Inr []
   \<and> makePullRequest dump_world (js ''update-dump'') =
     ([ConsoleLog (js ''Creating pull request'') None,
       PullsList \<lparr>pl_owner = js ''ljodal'', pl_repo = js ''django-actions'', pl_state = js ''open'',
                  pl_head = js ''ljodal:update-dump''\<rparr>],
      Inl (TypeError (js ''Cannot read property '' @ [0x27] @ js ''length'' @ [0x27] @ js '' of undefined'')))"
  by code_simp

lemma commitFile_events:
  "fst (commitFile w path branch) = [] \<or> fst (commitFile w path branch) = [CreateOrUpdateFile (file_request w path)]"
  by (simp add: commitFile_unfold)

lemma dump_database_try_events:
  "filter is_pulls_create (fst (dump_database_try w params branch)) = []"
proof -
  obtain es r where c: "commitFile w (outputPath params) branch = (es, r)"
    by (cases "commitFile w (outputPath params) branch")
  with commitFile_events[of w "outputPath params" branch]
  have es: "filter is_pulls_create es = []" by auto
  show ?thesis
    unfolding dump_database_try_def
    by (cases "applyMigrations w"; cases "dumpDatabase w params"; cases r)
       (simp_all add: call_declared_bound call_declared_unbound declared_simps io_simps c es pure_def)
qed

lemma dump_failed_events: "filter is_pulls_create (fst (dump_failed e)) = []"
  by (simp add: dump_failed_def io_simps emit_def)

lemma dump_database_run_never_creates:
  "filter is_pulls_create (fst (dump_database_run w)) = []"
proof (cases "dump_inputs w")
  case (Inl e)
  then show ?thesis by (simp add: dump_database_run_def io_simps)
next
  case (Inr x)
  obtain params branch where "x = (params, branch)" by (cases x)
  with Inr show ?thesis
    by (simp add: dump_database_run_def io_simps try_catch_events dump_database_try_events dump_failed_events)
qed

lemma part_001_run_never_creates:
  "filter is_pulls_create (fst (part_001_run w)) = []"
proof (cases "part_001_inputs w")
  case (Inl e)
  then show ?thesis by (simp add: part_001_run_def io_simps)
next
  case (Inr x)
  obtain path branch where "x = (path, branch)" by (cases x)
  with Inr show ?thesis
    by (simp add: part_001_run_def part_001_try_def io_simps call_declared_unbound declared_simps
        dump_failed_events)
qed

text \<open>
  C1 on a run in which the dump is detected as changed, where the claim has a pull request
  opened: \<open>run\<close> of dump-database/index.js commits the file and then calls
  \<open>createPullRequest\<close>, which no declaration binds; the ReferenceError is caught and the
  action fails without a pull request. \<open>run\<close> of the second file stops at
  \<open>applyMigrations\<close>, which that file does not declare.
\<close>

theorem dump_database_run_changed:
  "dump_inputs dump_world =
     Inr (\<lparr>dbName = js ''postgres'', dbHost = js ''postgres'', dbPort = js ''postgres'',
           dbUser = js ''postgres'', dbPass = js ''postgres'', dockerImage = js ''postgres'',
           outputPath = js ''db.sql''\<rparr>, js ''update-dump'')
   \<and> dumpDatabase dump_world
        \<lparr>dbName = js ''postgres'', dbHost = js ''postgres'', dbPort = js ''postgres'',
         dbUser = js ''postgres'', dbPass = js ''postgres'', dockerImage = js ''postgres'',
         outputPath = js ''db.sql''\<rparr> = Inr True
   \<and> dump_database_run dump_world =
        ([CreateOrUpdateFile
            \<lparr>cf_owner = js ''ljodal'', cf_repo = js ''django-actions'', cf_path = js ''db.sql'',
             cf_message = js ''Update database template'', cf_content = js ''LS0gUG9zdGdyZVNRTAo='',
             cf_sha = Some (js ''8ab686eafeb1f44702738c8b0f24f2567c36da6d'')\<rparr>,
          ConsoleLog (js ''Something went wrong'') (Some (ReferenceError (js ''createPullRequest is not defined''))),
          SetFailed (js ''createPullRequest is not defined'')],
         Inr ())
   \<and> dbDumpHasChanged dump_world (js ''db.sql'') = Inr True
   \<and> part_001_run dump_world =
        ([ConsoleLog (js ''Something went wrong'') (Some (ReferenceError (js ''applyMigrations is not defined''))),
          SetFailed (js ''applyMigrations is not defined'')],
         Inr ())"
  by code_simp

section \<open>Error handling in both scripts\<close>

text \<open>
  C3: in check-migrations, once the check run has been created, an error thrown by the main
  flow is caught by the one handler, which logs it, marks the action failed with the
  message of the error (\<open>core.setFailed\<close>, which sets a non-zero exit code) and sends an
  update of that check run with conclusion \<open>failure\<close>. In dump-database, in both copies, an
  error thrown in the \<open>try\<close> block is caught by the one handler, which logs it and marks the
  action failed with its message; nothing is left uncaught.
\<close>

theorem catch_all:
  "(getInput w (js ''github-token'') True = Inr token \<and> lock_command w = Inr command
      \<and> checks_create w (in_progress_params w) = Inr d
      \<and> check_migrations w command (Response d) = (es, Inl e) \<longrightarrow>
      fst (check_migrations_run w) =
        [ChecksCreate (in_progress_params w), ConsoleLog (js ''Check run'') None] @ es @
        [ConsoleLog (js ''Something went wrong'') (Some e), SetFailed (message e),
         ChecksUpdate (failure_params w d)])
   \<and> cu_check_run_id (failure_params w d) = d
   \<and> cu_conclusion (failure_params w d) = js ''failure''
   \<and> (dump_inputs w = Inr (params, branch) \<and> dump_database_try w params branch = (es, Inl e) \<longrightarrow>
      dump_database_run w =
        (es @ [ConsoleLog (js ''Something went wrong'') (Some e), SetFailed (message e)], Inr ()))
   \<and> (part_001_inputs w = Inr (path, branch) \<and> part_001_try w path branch = (es, Inl e) \<longrightarrow>
      part_001_run w =
        (es @ [ConsoleLog (js ''Something went wrong'') (Some e), SetFailed (message e)], Inr ()))"
  by (auto simp: check_migrations_run_unfold check_and_report_created failure_params_def
      dump_database_run_def part_001_run_def io_simps dump_failed_def emit_def)

text \<open>
  C3 on runs: \<open>showmigrations\<close> fails after the check run was created; \<open>migrate\<close> fails in
  dump-database; the second file fails at its first call.
\<close>

theorem catch_all_witness:
  "check_migrations broken_world (js ''migrationlocks'') (Response 7) =
     ([], Inl (Error (js ''Failed to run '' @ [0x22] @ js ''showmigrations --plan'' @ [0x22])))
   \<and> fst (check_migrations_run broken_world) =
     [ChecksCreate (in_progress_params broken_world), ConsoleLog (js ''Check run'') None,
      ConsoleLog (js ''Something went wrong'')
        (Some (Error (js ''Failed to run '' @ [0x22] @ js ''showmigrations --plan'' @ [0x22]))),
      SetFailed (js ''Failed to run '' @ [0x22] @ js ''showmigrations --plan'' @ [0x22]),
      ChecksUpdate (failure_params broken_world 7)]
   \<and> dump_database_run broken_dump_world =
     ([ConsoleLog (js ''Something went wrong'') (Some (Error (js ''The process failed''))),
       SetFailed (js ''The process failed'')], Inr ())
   \<and> part_001_run broken_dump_world =
     ([ConsoleLog (js ''Something went wrong'') (Some (ReferenceError (js ''applyMigrations is not defined''))),
       SetFailed (js ''applyMigrations is not defined'')], Inr ())"
proof -
  have i: "getInput broken_world (js ''github-token'') True = Inr (js ''secret'')
      \<and> lock_command broken_world = Inr (js ''migrationlocks'')
      \<and> checks_create broken_world (in_progress_params broken_world) = Inr 7"
    by code_simp
  have b: "check_migrations broken_world (js ''migrationlocks'') (Response 7) =
     ([], Inl (Error (js ''Failed to run '' @ [0x22] @ js ''showmigrations --plan'' @ [0x22])))"
    by code_simp
  have di: "dump_inputs broken_dump_world =
     Inr (\<lparr>dbName = js ''postgres'', dbHost = js ''postgres'', dbPort = js ''postgres'',
           dbUser = js ''postgres'', dbPass = js ''postgres'', dockerImage = js ''postgres'',
           outputPath = js ''db.sql''\<rparr>, js ''update-dump'')"
    by code_simp
  have dt: "dump_database_try broken_dump_world
      \<lparr>dbName = js ''postgres'', dbHost = js ''postgres'', dbPort = js ''postgres'',
       dbUser = js ''postgres'', dbPass = js ''postgres'', dockerImage = js ''postgres'',
       outputPath = js ''db.sql''\<rparr> (js ''update-dump'') = ([], Inl (Error (js ''The process failed'')))"
    by code_simp
  have pi: "part_001_inputs broken_dump_world = Inr (js ''db.sql'', js ''update-dump'')"
    by code_simp
  have pt: "part_001_try broken_dump_world (js ''db.sql'') (js ''update-dump'') =
      ([], Inl (ReferenceError (js ''applyMigrations is not defined'')))"
    by code_simp
  note c = catch_all[where w = broken_world and token = "js ''secret''" and command = "js ''migrationlocks''"
      and d = 7 and es = "[]" and e = "Error (js ''Failed to run '' @ [0x22] @ js ''showmigrations --plan'' @ [0x22])"]
  note d = catch_all[where w = broken_dump_world and es = "[]" and e = "Error (js ''The process failed'')"
      and params = "\<lparr>dbName = js ''postgres'', dbHost = js ''postgres'', dbPort = js ''postgres'',
       dbUser = js ''postgres'', dbPass = js ''postgres'', dockerImage = js ''postgres'',
       outputPath = js ''db.sql''\<rparr>" and branch = "js ''update-dump''"]
  note p = catch_all[where w = broken_dump_world and es = "[]"
      and e = "ReferenceError (js ''applyMigrations is not defined'')"
      and path = "js ''db.sql''" and branch = "js ''update-dump''"]
  show ?thesis
    using c d p i b di dt pi pt by simp
qed

end
